theory Spec2Isabelle
  imports Complex_Main "HOL-Library.Word"
begin

section \<open>JavaScript values\<close>

text \<open>
  The server is \<^verbatim>\<open>src/server.js\<close> (the version with accounts, saved reports and the
  helper \<^verbatim>\<open>parseGeminiJSON\<close>). A JavaScript string is a sequence of UTF-16 code units,
  and \<^verbatim>\<open>.length\<close>, \<^verbatim>\<open>indexOf\<close> and \<^verbatim>\<open>substring\<close> count code units, so a string is
  a list of 16-bit words. \<open>str\<close> writes an ASCII literal.
\<close>

type_synonym jsstring = "16 word list"

definition str :: "string \<Rightarrow> jsstring" where
  "str s = map (\<lambda>c. of_nat (of_char c)) s"

text \<open>
  A number read from JSON is a finite double or, for an overflowing literal, an infinity.
  A finite double is kept as the rational number it denotes; both zeros are \<open>Finite 0\<close>.
\<close>

datatype jsnum = Finite rat | PosInfinity | NegInfinity

datatype json =
    JNull
  | JBool bool
  | JNum jsnum
  | JStr jsstring
  | JArr "json list"
  | JObj "(jsstring \<times> json) list"

text \<open>
  \<open>None\<close> stands for \<^verbatim>\<open>undefined\<close>. \<open>truthy\<close> is the conversion to boolean that
  \<^verbatim>\<open>!x\<close> and \<^verbatim>\<open>x || y\<close> apply.
\<close>

fun truthy :: "json \<Rightarrow> bool" where
  "truthy JNull = False"
| "truthy (JBool b) = b"
| "truthy (JNum (Finite q)) = (q \<noteq> 0)"
| "truthy (JNum PosInfinity) = True"
| "truthy (JNum NegInfinity) = True"
| "truthy (JStr s) = (s \<noteq> [])"
| "truthy (JArr xs) = True"
| "truthy (JObj kvs) = True"

text \<open>
  Reading a property of a value that came out of JSON: an object has the properties of
  its key list, every other non-null value has none of the names read by this server.
\<close>

fun get_prop :: "json \<Rightarrow> jsstring \<Rightarrow> json option" where
  "get_prop (JObj kvs) k = map_of kvs k"
| "get_prop v k = None"

text \<open>\<^verbatim>\<open>x || d\<close> for a property that may be absent.\<close>

definition or_else :: "json option \<Rightarrow> json \<Rightarrow> json" where
  "or_else x d = (case x of None \<Rightarrow> d | Some v \<Rightarrow> if truthy v then v else d)"

text \<open>\<^verbatim>\<open>s || d\<close> for a string that may be absent: the empty string is falsy.\<close>

definition str_or :: "jsstring option \<Rightarrow> jsstring \<Rightarrow> jsstring" where
  "str_or x d = (case x of None \<Rightarrow> d | Some s \<Rightarrow> if s \<noteq> [] then s else d)"

definition str_truthy :: "jsstring option \<Rightarrow> bool" where
  "str_truthy x = (case x of None \<Rightarrow> False | Some s \<Rightarrow> s \<noteq> [])"

section \<open>String operations used by the server\<close>

text \<open>
  The characters matched by \<^verbatim>\<open>\s\<close> in a regular expression and removed by
  \<^verbatim>\<open>String.prototype.trim\<close>: white space and line terminators of ECMAScript.
\<close>

definition is_ws :: "16 word \<Rightarrow> bool" where
  "is_ws c = (c \<in> {0x09, 0x0A, 0x0B, 0x0C, 0x0D, 0x20, 0xA0, 0x1680,
                    0x2028, 0x2029, 0x202F, 0x205F, 0x3000, 0xFEFF}
              \<or> (0x2000 \<le> c \<and> c \<le> 0x200A))"

definition trim :: "jsstring \<Rightarrow> jsstring" where
  "trim s = rev (dropWhile is_ws (rev (dropWhile is_ws s)))"

text \<open>Three backticks, the delimiter of a fenced code block.\<close>

definition fence :: jsstring where
  "fence = [0x60, 0x60, 0x60]"

text \<open>
  \<^verbatim>\<open>/```json\s*/gi\<close> matches at the head of \<open>s\<close>: the fence, then the letters of
  \<^verbatim>\<open>json\<close> in either case.
\<close>

definition at_json_fence :: "jsstring \<Rightarrow> bool" where
  "at_json_fence s =
     (take 3 s = fence \<and> 7 \<le> length s
      \<and> s ! 3 \<in> {0x6A, 0x4A} \<and> s ! 4 \<in> {0x73, 0x53}
      \<and> s ! 5 \<in> {0x6F, 0x4F} \<and> s ! 6 \<in> {0x6E, 0x4E})"

text \<open>
  \<^verbatim>\<open>.replace(/```json\s*/gi, "")\<close>: scanning from the left, every match (with all the
  white space after it) is removed and the scan goes on behind the match.
\<close>

function replace_json_fence :: "jsstring \<Rightarrow> jsstring" where
  "replace_json_fence [] = []"
| "replace_json_fence (c # cs) =
     (if at_json_fence (c # cs)
      then replace_json_fence (dropWhile is_ws (drop 7 (c # cs)))
      else c # replace_json_fence cs)"
  by pat_completeness auto
termination
  by (relation "measure length")
     (auto intro: le_less_trans [OF length_dropWhile_le])

text \<open>\<^verbatim>\<open>.replace(/```\s*/g, "")\<close>.\<close>

function replace_fence :: "jsstring \<Rightarrow> jsstring" where
  "replace_fence [] = []"
| "replace_fence (c # cs) =
     (if take 3 (c # cs) = fence
      then replace_fence (dropWhile is_ws (drop 3 (c # cs)))
      else c # replace_fence cs)"
  by pat_completeness auto
termination
  by (relation "measure length")
     (auto intro: le_less_trans [OF length_dropWhile_le])

text \<open>\<^verbatim>\<open>indexOf\<close> and \<^verbatim>\<open>lastIndexOf\<close> of one character: \<open>-1\<close> when it is absent.\<close>

definition indexOf :: "jsstring \<Rightarrow> 16 word \<Rightarrow> int" where
  "indexOf s c =
     (if c \<in> set s then int (length (takeWhile (\<lambda>x. x \<noteq> c) s)) else - 1)"

definition lastIndexOf :: "jsstring \<Rightarrow> 16 word \<Rightarrow> int" where
  "lastIndexOf s c =
     (if c \<in> set s
      then int (length s) - 1 - int (length (takeWhile (\<lambda>x. x \<noteq> c) (rev s)))
      else - 1)"

text \<open>
  \<^verbatim>\<open>substring(a, b)\<close>: both indices are clamped to the string and swapped when
  \<open>a > b\<close>.
\<close>

definition substring :: "jsstring \<Rightarrow> int \<Rightarrow> int \<Rightarrow> jsstring" where
  "substring s a b =
     (let n = int (length s);
          a' = min (max a 0) n;
          b' = min (max b 0) n;
          from = min a' b';
          to = max a' b'
      in take (nat (to - from)) (drop (nat from) s))"

section \<open>Recovering JSON from the model's reply\<close>

text \<open>
  \<^verbatim>\<open>JSON.parse\<close> belongs to the language, not to this repository: it is the parameter
  \<open>parse\<close>, which returns \<open>None\<close> where \<^verbatim>\<open>JSON.parse\<close> throws a \<^verbatim>\<open>SyntaxError\<close>.
  An exception is a value of \<open>js_error\<close>; \<open>Error m\<close> is \<^verbatim>\<open>new Error(m)\<close>.
\<close>

datatype js_error = SyntaxError | Error jsstring

text \<open>The text handed to the first \<^verbatim>\<open>JSON.parse\<close>.\<close>

definition cleaned :: "jsstring \<Rightarrow> jsstring" where
  "cleaned text = trim (replace_fence (replace_json_fence text))"

text \<open>
  \<^verbatim>\<open>parseGeminiJSON\<close>. The second component lists the arguments of the calls of
  \<^verbatim>\<open>JSON.parse\<close> in the order in which they were made.
\<close>

definition parseGeminiJSON ::
  "(jsstring \<Rightarrow> json option) \<Rightarrow> jsstring \<Rightarrow> (js_error + json) \<times> jsstring list" where
  "parseGeminiJSON parse text =
     (case parse (cleaned text) of
        Some v \<Rightarrow> (Inr v, [cleaned text])
      | None \<Rightarrow>
          (let firstBrace = indexOf text 0x7B;
               lastBrace = lastIndexOf text 0x7D
           in if firstBrace \<noteq> - 1 \<and> lastBrace > firstBrace
              then (let jsonStr = substring text firstBrace (lastBrace + 1)
                    in case parse jsonStr of
                         Some v \<Rightarrow> (Inr v, [cleaned text, jsonStr])
                       | None \<Rightarrow> (Inl SyntaxError, [cleaned text, jsonStr]))
              else (Inl (Error (str ''No JSON object found in response'')),
                    [cleaned text])))"

text \<open>The text handed to the second \<^verbatim>\<open>JSON.parse\<close>, the \<^verbatim>\<open>jsonStr\<close> of the function.\<close>

definition jsonStr :: "jsstring \<Rightarrow> jsstring" where
  "jsonStr text = substring text (indexOf text 0x7B) (lastIndexOf text 0x7D + 1)"

section \<open>The analysis endpoint\<close>

text \<open>
  The bodies that the handlers pass to \<^verbatim>\<open>res.json\<close>, one constructor for each shape of
  object literal in the source, and the rows that the SQL statements return.
\<close>

record saved_view =
  sv_id :: nat
  sv_report_id :: jsstring
  sv_title :: jsstring
  sv_score :: int
  sv_created_at :: nat

record listed_view =
  lv_id :: nat
  lv_report_id :: jsstring
  lv_title :: jsstring
  lv_score :: int
  lv_lang :: jsstring
  lv_created_at :: nat

record report_view =
  rv_id :: nat
  rv_report_id :: jsstring
  rv_title :: jsstring
  rv_data :: json
  rv_score :: int
  rv_lang :: jsstring
  rv_created_at :: nat

record user_view =
  uv_id :: nat
  uv_email :: jsstring
  uv_name :: jsstring
  uv_company :: jsstring

datatype body =
    ErrorBody jsstring
      \<comment> \<open>\<^verbatim>\<open>{ error }\<close>\<close>
  | ParseErrorBody jsstring jsstring
      \<comment> \<open>\<^verbatim>\<open>{ error, raw }\<close>\<close>
  | AnalysisBody bool bool "jsstring option" json
      \<comment> \<open>\<^verbatim>\<open>{ success, demo, message, data }\<close>, the message only in demo mode\<close>
  | SavedBody saved_view
      \<comment> \<open>\<^verbatim>\<open>{ success: true, report }\<close>\<close>
  | ReportsBody "listed_view list"
      \<comment> \<open>\<^verbatim>\<open>{ reports }\<close>\<close>
  | ReportBody report_view
      \<comment> \<open>\<^verbatim>\<open>{ report }\<close>\<close>
  | SuccessBody
      \<comment> \<open>\<^verbatim>\<open>{ success: true }\<close>\<close>
  | UserBody user_view
      \<comment> \<open>\<^verbatim>\<open>{ success: true, user }\<close>\<close>

record response =
  status :: nat
  body :: body

text \<open>\<^verbatim>\<open>res.status(n).json(b)\<close>; \<^verbatim>\<open>res.json(b)\<close> answers with status 200.\<close>

definition reply :: "nat \<Rightarrow> body \<Rightarrow> response" where
  "reply n b = \<lparr>status = n, body = b\<rparr>"

text \<open>\<^verbatim>\<open>getDemoData\<close>: the fixed record of demo mode; only the summaries read \<open>lang\<close>.\<close>

definition getDemoData :: "jsstring \<Rightarrow> json" where
  "getDemoData lang =
     JObj
      [(str ''ingredientRisk'', JObj
        [(str ''status'', JStr (str ''warn'')),
         (str ''flagCount'', JNum (Finite 3)),
         (str ''items'', JArr
          [JObj
            [(str ''name'', JStr (str ''Sodium Benzoate (E211)'')),
             (str ''nameCn'', JStr ([0x82EF, 0x7532, 0x9178, 0x94A0] @ str '' (E211)'')),
             (str ''status'', JStr (str ''pass'')),
             (str ''note'', JStr (str ''FDA-affirmed GRAS preservative per 21 CFR 184.1733''))],
           JObj
            [(str ''name'', JStr (str ''Red No. 40 (Allura Red)'')),
             (str ''nameCn'', JStr ([0x8BF1, 0x60D1, 0x7EA2] @ str ''40'' @ [0x53F7])),
             (str ''status'', JStr (str ''warn'')),
             (str ''note'', JStr (str ''Requires specific listing on label per 21 CFR 74''))],
           JObj
            [(str ''name'', JStr (str ''Steviol Glycosides'')),
             (str ''nameCn'', JStr [0x751C, 0x83CA, 0x7CD6, 0x82F7]),
             (str ''status'', JStr (str ''pass'')),
             (str ''note'', JStr (str ''GRAS approved sweetener''))],
           JObj
            [(str ''name'', JStr (str ''Titanium Dioxide (E171)'')),
             (str ''nameCn'', JStr ([0x4E8C, 0x6C27, 0x5316, 0x949B] @ str '' (E171)'')),
             (str ''status'', JStr (str ''fail'')),
             (str ''note'', JStr (str ''Subject to ongoing regulatory review '' @ [0x2014]
                 @ str '' requires verification of current guidance''))]]),
         (str ''overallRisk'', JStr (str ''medium'')),
         (str ''riskPercent'', JNum (Finite 55)),
         (str ''summary'', JStr (if lang = str ''cn''
                 then [0x68C0, 0x6D4B, 0x5230] @ str '' 3 '' @ [0x9879, 0x9700, 0x5173, 0x6CE8,
                     0x7684, 0x6210, 0x5206, 0x6807, 0x8BB0, 0xFF0C, 0x6574, 0x4F53, 0x98CE,
                         0x9669, 0x7B49, 0x7EA7, 0x4E3A, 0x4E2D, 0x7B49, 0x3002]
                 else str ''3 ingredient flags detected. Overall risk level is medium.''))]),
       (str ''labelCompliance'', JObj
        [(str ''status'', JStr (str ''warn'')),
         (str ''passCount'', JNum (Finite 7)),
         (str ''totalCount'', JNum (Finite 9)),
         (str ''items'', JArr
          [JObj
            [(str ''name'', JStr (str ''Nutrition Facts Format (2020)'')),
             (str ''nameCn'', JStr ([0x8425, 0x517B, 0x6210, 0x5206, 0x8868, 0x683C, 0x5F0F]
                 @ str '' (2020)'')),
             (str ''status'', JStr (str ''pass'')),
             (str ''note'', JStr (str ''Compliant''))],
           JObj
            [(str ''name'', JStr (str ''Allergen Declaration (FALCPA)'')),
             (str ''nameCn'', JStr ([0x8FC7, 0x654F, 0x539F, 0x58F0, 0x660E]
                 @ str '' (FALCPA)'')),
             (str ''status'', JStr (str ''warn'')),
             (str ''note'',
                 JStr (str ''Wheat allergen needs bold or separate Contains line''))],
           JObj
            [(str ''name'', JStr (str ''Net Weight (Dual Units)'')),
             (str ''nameCn'', JStr [0x51C0, 0x542B, 0x91CF, 0xFF08, 0x53CC, 0x5355, 0x4F4D,
                 0xFF09]),
             (str ''status'', JStr (str ''fail'')),
             (str ''note'', JStr (str ''Missing US customary units (oz)''))],
           JObj
            [(str ''name'', JStr (str ''Country of Origin'')),
             (str ''nameCn'', JStr [0x539F, 0x4EA7, 0x56FD, 0x6807, 0x6CE8]),
             (str ''status'', JStr (str ''pass'')),
             (str ''note'', JStr (str ''Clearly displayed''))],
           JObj
            [(str ''name'', JStr (str ''English Product Name'')),
             (str ''nameCn'', JStr [0x82F1, 0x6587, 0x4EA7, 0x54C1, 0x540D, 0x79F0]),
             (str ''status'', JStr (str ''pass'')),
             (str ''note'', JStr (str ''Present and legible''))]]),
         (str ''summary'', JStr (if lang = str ''cn''
                 then str ''9 '' @ [0x9879, 0x6807, 0x7B7E, 0x68C0, 0x67E5, 0x4E2D]
                     @ str '' 7 '' @ [0x9879, 0x901A, 0x8FC7, 0xFF0C] @ str ''2 '' @ [0x9879,
                         0x9700, 0x4FEE, 0x6B63, 0x3002]
                 else str ''7 of 9 label checks passed. 2 items need correction.''))]),
       (str ''facilityRegistration'', JObj
        [(str ''status'', JStr (str ''info'')),
         (str ''items'', JArr
          [JObj
            [(str ''name'', JStr (str ''FDA Registration Number'')),
             (str ''nameCn'', JStr (str ''FDA '' @ [0x6CE8, 0x518C, 0x7F16, 0x53F7])),
             (str ''value'', JStr (str ''Not provided'')),
             (str ''status'', JStr (str ''info''))],
           JObj
            [(str ''name'', JStr (str ''Registration Status'')),
             (str ''nameCn'', JStr [0x6CE8, 0x518C, 0x72B6, 0x6001]),
             (str ''value'', JStr (str ''Needs verification'')),
             (str ''status'', JStr (str ''info''))],
           JObj
            [(str ''name'', JStr (str ''US Agent Designated'')),
             (str ''nameCn'', JStr [0x7F8E, 0x56FD, 0x4EE3, 0x7406, 0x4EBA]),
             (str ''value'', JStr (str ''Unknown'')),
             (str ''status'', JStr (str ''warn''))],
           JObj
            [(str ''name'', JStr (str ''FSVP Importer'')),
             (str ''nameCn'', JStr (str ''FSVP '' @ [0x8FDB, 0x53E3, 0x5546])),
             (str ''value'', JStr (str ''Pending'')),
             (str ''status'', JStr (str ''warn''))]]),
         (str ''summary'', JStr (if lang = str ''cn''
                 then [0x5DE5, 0x5382, 0x6CE8, 0x518C, 0x4FE1, 0x606F, 0x9700, 0x8981, 0x624B,
                     0x52A8, 0x63D0, 0x4F9B, 0x4EE5, 0x5B8C, 0x6210, 0x9A8C, 0x8BC1, 0x3002]
                 else str ''Facility registration details need to be provided for verification.''))]),
       (str ''marketingClaims'', JObj
        [(str ''status'', JStr (str ''warn'')),
         (str ''issueCount'', JNum (Finite 2)),
         (str ''items'', JArr
          [JObj
            [(str ''claim'', JStr ([0x0022] @ str ''All Natural'' @ [0x0022])),
             (str ''claimCn'', JStr [0x0022, 0x7EAF, 0x5929, 0x7136, 0x0022]),
             (str ''status'', JStr (str ''warn'')),
             (str ''note'', JStr (str ''Vague claim '' @ [0x2014]
                 @ str '' FDA has no formal definition''))],
           JObj
            [(str ''claim'', JStr ([0x0022] @ str ''Boosts Immunity'' @ [0x0022])),
             (str ''claimCn'', JStr [0x0022, 0x589E, 0x5F3A, 0x514D, 0x75AB, 0x529B, 0x0022]),
             (str ''status'', JStr (str ''fail'')),
             (str ''note'', JStr (str ''Requires review '' @ [0x2014]
                 @ str '' health-related claim warrants regulatory assessment per DSHEA''))],
           JObj
            [(str ''claim'', JStr ([0x0022] @ str ''Low Sugar'' @ [0x0022])),
             (str ''claimCn'', JStr [0x0022, 0x4F4E, 0x7CD6, 0x0022]),
             (str ''status'', JStr (str ''pass'')),
             (str ''note'', JStr (str ''Meets nutrient content claim criteria''))],
           JObj
            [(str ''claim'', JStr ([0x0022] @ str ''Non-GMO'' @ [0x0022])),
             (str ''claimCn'', JStr [0x0022, 0x975E, 0x8F6C, 0x57FA, 0x56E0, 0x0022]),
             (str ''status'', JStr (str ''info'')),
             (str ''note'', JStr (str ''Requires third-party certification''))]]),
         (str ''riskLevel'', JStr (str ''high'')),
         (str ''riskPercent'', JNum (Finite 72)),
         (str ''summary'', JStr (if lang = str ''cn''
                 then [0x53D1, 0x73B0] @ str '' 2 '' @ [0x9879, 0x5BA3, 0x4F20, 0x8BED, 0x8A00,
                     0x95EE, 0x9898, 0xFF0C, 0x98CE, 0x9669, 0x7B49, 0x7EA7, 0x8F83, 0x9AD8,
                         0x3002]
                 else str ''2 marketing claim issues found. Risk level is high.''))]),
       (str ''overallRiskLevel'', JStr (str ''medium'')),
       (str ''overallVerdict'',
           JStr (str ''Medium structural risk identified. Multiple items require optimization prior to U.S. market entry.'')),
       (str ''overallVerdictCn'', JStr [0x8BC6, 0x522B, 0x5230, 0x4E2D, 0x7B49, 0x7ED3, 0x6784,
           0x98CE, 0x9669, 0x3002, 0x591A, 0x9879, 0x5185, 0x5BB9, 0x9700, 0x5728, 0x8FDB,
               0x5165, 0x7F8E, 0x56FD, 0x5E02, 0x573A, 0x524D, 0x8FDB, 0x884C, 0x4F18, 0x5316,
                   0x3002]),
       (str ''recommendations'', JArr
        [JStr (str ''Add U.S. customary weight units (oz) per 21 CFR 101.105''),
         JStr (str ''Add allergen '' @ [0x0022] @ str ''Contains'' @ [0x0022]
             @ str '' statement or bold declaration per FALCPA Sec. 203''),
         JStr (str ''Review and revise health-related marketing claim '' @ [0x0022]
             @ str ''Boosts Immunity'' @ [0x0022] @ str '' per DSHEA Sec. 403(r)(6)''),
         JStr (str ''Clarify or revise '' @ [0x0022] @ str ''All Natural'' @ [0x0022]
             @ str '' claim per FD&C Act Sec. 403(a)(1)''),
         JStr (str ''Confirm facility FEI number and DUNS with manufacturer per 21 CFR 1.225'')]),
       (str ''recommendationsCn'', JArr
        [JStr ([0x4F9D, 0x636E] @ str '' 21 CFR 101.105 '' @ [0x6DFB, 0x52A0, 0x7F8E, 0x5236,
            0x91CD, 0x91CF, 0x5355, 0x4F4D] @ str '' (oz)''),
         JStr ([0x4F9D, 0x636E] @ str '' FALCPA Sec. 203 '' @ [0x6DFB, 0x52A0, 0x8FC7, 0x654F,
             0x539F, 0x0022, 0x542B, 0x6709, 0x0022, 0x58F0, 0x660E, 0x6216, 0x52A0, 0x7C97,
                 0x6807, 0x6CE8]),
         JStr ([0x4F9D, 0x636E] @ str '' DSHEA Sec. 403(r)(6) '' @ [0x5BA1, 0x67E5, 0x5E76,
             0x4FEE, 0x8BA2, 0x5065, 0x5EB7, 0x76F8, 0x5173, 0x5BA3, 0x4F20, 0x8BED, 0x0022,
                 0x589E, 0x5F3A, 0x514D, 0x75AB, 0x529B, 0x0022]),
         JStr ([0x4F9D, 0x636E] @ str '' FD&C Act Sec. 403(a)(1) '' @ [0x660E, 0x786E, 0x6216,
             0x4FEE, 0x8BA2, 0x0022, 0x7EAF, 0x5929, 0x7136, 0x0022, 0x58F0, 0x79F0]),
         JStr ([0x4F9D, 0x636E] @ str '' 21 CFR 1.225 '' @ [0x4E0E, 0x5DE5, 0x5382, 0x786E,
             0x8BA4, 0x8BBE, 0x65BD] @ str '' FEI '' @ [0x7F16, 0x53F7, 0x53CA]
                 @ str '' DUNS '' @ [0x4FE1, 0x606F])])]"

text \<open>
  An uploaded file as multer stores it, and the upload directory as the set of paths that
  exist. \<^verbatim>\<open>fs.readFileSync\<close> throws on a path that does not exist; the bytes it returns
  only travel to the model and are not kept.
\<close>

record upfile =
  path :: jsstring
  mimetype :: jsstring

type_synonym fs = "jsstring set"

record image_part =
  ip_path :: jsstring
  ip_mimeType :: jsstring

definition startsWith :: "jsstring \<Rightarrow> jsstring \<Rightarrow> bool" where
  "startsWith s p = (take (length p) s = p)"

definition enoent :: "jsstring \<Rightarrow> jsstring" where
  "enoent p = str ''ENOENT: no such file or directory, open '' @ [0x27] @ p @ [0x27]"

text \<open>\<^verbatim>\<open>filesToImageParts\<close>; \<open>Inl m\<close> is an exception with message \<open>m\<close>.\<close>

fun filesToImageParts :: "fs \<Rightarrow> upfile list \<Rightarrow> jsstring + image_part list" where
  "filesToImageParts disk [] = Inr []"
| "filesToImageParts disk (file # rest) =
     (if startsWith (mimetype file) (str ''image/'') then
        (if path file \<in> disk
         then (case filesToImageParts disk rest of
                 Inl m \<Rightarrow> Inl m
               | Inr parts \<Rightarrow>
                   Inr (\<lparr>ip_path = path file, ip_mimeType = mimetype file\<rparr> # parts))
         else Inl (enoent (path file)))
      else if mimetype file = str ''application/pdf'' then
        (if path file \<in> disk
         then (case filesToImageParts disk rest of
                 Inl m \<Rightarrow> Inl m
               | Inr parts \<Rightarrow>
                   Inr (\<lparr>ip_path = path file, ip_mimeType = str ''application/pdf''\<rparr> # parts))
         else Inl (enoent (path file)))
      else filesToImageParts disk rest)"

text \<open>
  \<^verbatim>\<open>cleanupFiles\<close>: every file is unlinked; the callback ignores a failure, so a path
  that is already gone changes nothing.
\<close>

fun cleanupFiles :: "fs \<Rightarrow> upfile list \<Rightarrow> fs" where
  "cleanupFiles disk [] = disk"
| "cleanupFiles disk (file # rest) = cleanupFiles (disk - {path file}) rest"

text \<open>
  \<^verbatim>\<open>getGeminiClient\<close> returns a client exactly when the environment variable
  \<^verbatim>\<open>GEMINI_API_KEY\<close> is set and not empty.
\<close>

definition getGeminiClient :: "jsstring option \<Rightarrow> jsstring option" where
  "getGeminiClient apiKey = (if str_truthy apiKey then apiKey else None)"

record analyze_req =
  req_files :: "upfile list option"
  req_lang :: "jsstring option"

text \<open>
  The handler of \<^verbatim>\<open>POST /api/analyze\<close>. Its parameters are the environment variable,
  \<^verbatim>\<open>JSON.parse\<close>, the call of the model (\<open>generate lang parts\<close> is what
  \<^verbatim>\<open>generateContent\<close> followed by \<^verbatim>\<open>text()\<close> yields for the prompt of language \<open>lang\<close>
  and the parts: \<open>Inl m\<close> an exception with message \<open>m\<close>, \<open>Inr text\<close> the reply),
  the upload directory and the request. It returns the response and the upload directory
  as the request leaves it. Console output is not modelled.
\<close>

definition analyze ::
  "jsstring option \<Rightarrow> (jsstring \<Rightarrow> json option)
   \<Rightarrow> (jsstring \<Rightarrow> image_part list \<Rightarrow> jsstring + jsstring)
   \<Rightarrow> fs \<Rightarrow> analyze_req \<Rightarrow> response \<times> fs" where
  "analyze apiKey parse generate disk req =
     (let lang = str_or (req_lang req) (str ''en'') in
      case req_files req of
        None \<Rightarrow> (reply 400 (ErrorBody (str ''No files uploaded'')), disk)
      | Some files \<Rightarrow>
          if length files = 0
          then (reply 400 (ErrorBody (str ''No files uploaded'')), disk)
          else
            (case getGeminiClient apiKey of
               None \<Rightarrow>
                 (reply 200
                    (AnalysisBody True True
                       (Some (str ''GEMINI_API_KEY not configured. Returning demo analysis.''))
                       (getDemoData lang)),
                  disk)
             | Some genAI \<Rightarrow>
                 (case filesToImageParts disk files of
                    Inl m \<Rightarrow>
                      (reply 500 (ErrorBody (str_or (Some m) (str ''Internal server error''))),
                       disk)
                  | Inr imageParts \<Rightarrow>
                      if length imageParts = 0
                      then (reply 400 (ErrorBody (str ''No valid image/PDF files found'')), disk)
                      else
                        (case generate lang imageParts of
                           Inl m \<Rightarrow>
                             (reply 500
                                (ErrorBody (str_or (Some m) (str ''Internal server error''))),
                              disk)
                         | Inr text \<Rightarrow>
                             (case fst (parseGeminiJSON parse text) of
                                Inl e \<Rightarrow>
                                  (reply 500
                                     (ParseErrorBody (str ''Failed to parse AI response'')
                                        (substring text 0 800)),
                                   disk)
                              | Inr data \<Rightarrow>
                                  (reply 200 (AnalysisBody True False None data),
                                   cleanupFiles disk files))))))"

section \<open>The store\<close>

text \<open>
  The tables \<^verbatim>\<open>users\<close> and \<^verbatim>\<open>reports\<close> of \<^verbatim>\<open>initDB\<close>, as lists of rows in
  insertion order. The column \<^verbatim>\<open>data\<close> keeps the value that \<^verbatim>\<open>JSON.stringify\<close> was
  given. Ids come from a counter (the gaps that a failed \<^verbatim>\<open>INSERT\<close> leaves in a
  \<^verbatim>\<open>SERIAL\<close> sequence are not modelled), \<open>db_now\<close> is the server's \<^verbatim>\<open>NOW()\<close>, and
  \<open>db_ok\<close> is false when \<^verbatim>\<open>pool.query\<close> rejects for a reason that lies outside the
  tables: no connection, or a value that the server refuses for its column.
\<close>

record user_row =
  u_id :: nat
  u_email :: jsstring
  u_password_hash :: jsstring
  u_name :: jsstring
  u_company :: jsstring
  u_created_at :: nat

record report_row =
  r_id :: nat
  r_user_id :: nat
  r_report_id :: jsstring
  r_title :: jsstring
  r_data :: json
  r_lang :: jsstring
  r_score :: int
  r_created_at :: nat

record db =
  users :: "user_row list"
  reports :: "report_row list"
  next_user_id :: nat
  next_report_id :: nat
  db_now :: nat
  db_ok :: bool

text \<open>
  \<^verbatim>\<open>INSERT INTO reports (user_id, report_id, title, data, lang, score)\<close>: refused when
  the user does not exist (foreign key) or the report id is taken (\<^verbatim>\<open>UNIQUE\<close>); a
  refused statement leaves the tables as they were.
\<close>

definition insert_report ::
  "db \<Rightarrow> nat \<Rightarrow> jsstring \<Rightarrow> jsstring \<Rightarrow> json \<Rightarrow> jsstring \<Rightarrow> int
   \<Rightarrow> (report_row \<times> db) option" where
  "insert_report d uid rid title dat lang score =
     (if \<not> db_ok d \<or> uid \<notin> set (map u_id (users d))
         \<or> rid \<in> set (map r_report_id (reports d))
      then None
      else
        (let row = \<lparr>r_id = next_report_id d, r_user_id = uid, r_report_id = rid,
                     r_title = title, r_data = dat, r_lang = lang, r_score = score,
                     r_created_at = db_now d\<rparr>
         in Some (row, d\<lparr>reports := reports d @ [row],
                          next_report_id := Suc (next_report_id d)\<rparr>)))"

text \<open>\<^verbatim>\<open>INSERT INTO users (email, password_hash, name, company)\<close>; the email is unique.\<close>

definition insert_user ::
  "db \<Rightarrow> jsstring \<Rightarrow> jsstring \<Rightarrow> jsstring \<Rightarrow> jsstring \<Rightarrow> (user_row \<times> db) option" where
  "insert_user d email hash name company =
     (if \<not> db_ok d \<or> email \<in> set (map u_email (users d))
      then None
      else
        (let row = \<lparr>u_id = next_user_id d, u_email = email, u_password_hash = hash,
                     u_name = name, u_company = company, u_created_at = db_now d\<rparr>
         in Some (row, d\<lparr>users := users d @ [row],
                          next_user_id := Suc (next_user_id d)\<rparr>)))"

text \<open>
  \<^verbatim>\<open>requireAuth\<close> lets a request pass when \<^verbatim>\<open>req.session.userId\<close> is truthy: set, and
  not the number 0.
\<close>

definition authenticated :: "nat option \<Rightarrow> bool" where
  "authenticated userId = (case userId of None \<Rightarrow> False | Some n \<Rightarrow> n \<noteq> 0)"

definition not_authenticated :: response where
  "not_authenticated = reply 401 (ErrorBody (str ''Not authenticated''))"

section \<open>Saved reports\<close>

text \<open>
  \<^verbatim>\<open>Date.now().toString(36).toUpperCase()\<close>: the digits of the number in base 36, the
  letters in upper case.
\<close>

definition digit36 :: "nat \<Rightarrow> 16 word" where
  "digit36 d = (if d < 10 then of_nat (48 + d) else of_nat (87 + d))"

function toString36 :: "nat \<Rightarrow> jsstring" where
  "toString36 n = (if n < 36 then [digit36 n] else toString36 (n div 36) @ [digit36 (n mod 36)])"
  by pat_completeness auto
termination
  by (relation "measure id") auto

declare toString36.simps [simp del]

text \<open>\<^verbatim>\<open>toUpperCase\<close> on a string of ASCII digits and letters.\<close>

definition toUpperCase36 :: "jsstring \<Rightarrow> jsstring" where
  "toUpperCase36 s = map (\<lambda>c. if 0x61 \<le> c \<and> c \<le> 0x7A then c - 0x20 else c) s"

definition make_report_id :: "nat \<Rightarrow> jsstring" where
  "make_report_id now = str ''GTM-'' @ toUpperCase36 (toString36 now)"

text \<open>
  The lines \<^verbatim>\<open>const riskLevel = reportData.overallRiskLevel || "medium"\<close> and
  \<^verbatim>\<open>const score = riskLevel === "low" ? 1 : riskLevel === "high" ? 3 : 2\<close>.
\<close>

definition riskLevel_of :: "json \<Rightarrow> json" where
  "riskLevel_of reportData =
     or_else (get_prop reportData (str ''overallRiskLevel'')) (JStr (str ''medium''))"

definition score_of :: "json \<Rightarrow> int" where
  "score_of reportData =
     (let riskLevel = riskLevel_of reportData
      in if riskLevel = JStr (str ''low'') then 1
         else if riskLevel = JStr (str ''high'') then 3 else 2)"

text \<open>The default title of a report in Chinese.\<close>

definition default_title_cn :: jsstring where
  "default_title_cn =
     [0x4EA7, 0x54C1, 0x5408, 0x89C4, 0x7ED3, 0x6784, 0x8BC4, 0x4F30, 0x62A5, 0x544A]"

record save_body =
  sb_reportData :: "json option"
  sb_lang :: "jsstring option"
  sb_title :: "jsstring option"

text \<open>
  \<^verbatim>\<open>POST /api/reports\<close>. \<open>now\<close> is \<^verbatim>\<open>Date.now()\<close>, \<open>userId\<close> is
  \<^verbatim>\<open>req.session.userId\<close>.
\<close>

definition save_report :: "nat \<Rightarrow> db \<Rightarrow> nat option \<Rightarrow> save_body \<Rightarrow> response \<times> db" where
  "save_report now d userId b =
     (if \<not> authenticated userId then (not_authenticated, d)
      else
        (case (userId, sb_reportData b) of
           (Some uid, Some reportData) \<Rightarrow>
             if \<not> truthy reportData
             then (reply 400 (ErrorBody (str ''Report data is required'')), d)
             else
               (let reportId = make_report_id now;
                    score = score_of reportData;
                    reportTitle =
                      str_or (sb_title b)
                        (if sb_lang b = Some (str ''cn'') then default_title_cn
                         else str ''Product Compliance Structural Assessment Report'')
                in case insert_report d uid reportId reportTitle reportData
                          (str_or (sb_lang b) (str ''en'')) score of
                     None \<Rightarrow> (reply 500 (ErrorBody (str ''Failed to save report'')), d)
                   | Some (row, d') \<Rightarrow>
                       (reply 200
                          (SavedBody \<lparr>sv_id = r_id row, sv_report_id = r_report_id row,
                                      sv_title = r_title row, sv_score = r_score row,
                                      sv_created_at = r_created_at row\<rparr>),
                        d'))
         | _ \<Rightarrow> (reply 400 (ErrorBody (str ''Report data is required'')), d)))"

text \<open>
  \<^verbatim>\<open>GET /api/reports\<close>: the caller's rows, newest first, at most 50. Rows of equal
  \<^verbatim>\<open>created_at\<close> come in an order that the server chooses; the model fixes one.
\<close>

definition listed :: "report_row \<Rightarrow> listed_view" where
  "listed r = \<lparr>lv_id = r_id r, lv_report_id = r_report_id r, lv_title = r_title r,
               lv_score = r_score r, lv_lang = r_lang r, lv_created_at = r_created_at r\<rparr>"

definition list_reports :: "db \<Rightarrow> nat option \<Rightarrow> response" where
  "list_reports d userId =
     (if \<not> authenticated userId then not_authenticated
      else if \<not> db_ok d then reply 500 (ErrorBody (str ''Failed to list reports''))
      else
        reply 200
          (ReportsBody
             (map listed
                (take 50
                   (rev (sort_key r_created_at
                      (filter (\<lambda>r. Some (r_user_id r) = userId) (reports d))))))))"

text \<open>\<^verbatim>\<open>GET /api/reports/:reportId\<close>.\<close>

definition viewed :: "report_row \<Rightarrow> report_view" where
  "viewed r = \<lparr>rv_id = r_id r, rv_report_id = r_report_id r, rv_title = r_title r,
               rv_data = r_data r, rv_score = r_score r, rv_lang = r_lang r,
               rv_created_at = r_created_at r\<rparr>"

definition get_report :: "db \<Rightarrow> nat option \<Rightarrow> jsstring \<Rightarrow> response" where
  "get_report d userId reportId =
     (if \<not> authenticated userId then not_authenticated
      else if \<not> db_ok d then reply 500 (ErrorBody (str ''Failed to load report''))
      else
        (case filter (\<lambda>r. r_report_id r = reportId \<and> Some (r_user_id r) = userId)
                (reports d) of
           [] \<Rightarrow> reply 404 (ErrorBody (str ''Report not found''))
         | row # rest \<Rightarrow> reply 200 (ReportBody (viewed row))))"

text \<open>\<^verbatim>\<open>DELETE /api/reports/:reportId\<close>.\<close>

definition delete_report :: "db \<Rightarrow> nat option \<Rightarrow> jsstring \<Rightarrow> response \<times> db" where
  "delete_report d userId reportId =
     (if \<not> authenticated userId then (not_authenticated, d)
      else if \<not> db_ok d then (reply 500 (ErrorBody (str ''Failed to delete report'')), d)
      else
        (reply 200 SuccessBody,
         d\<lparr>reports :=
             filter (\<lambda>r. \<not> (r_report_id r = reportId \<and> Some (r_user_id r) = userId))
               (reports d)\<rparr>))"

section \<open>Registration\<close>

record register_body =
  rb_email :: "jsstring option"
  rb_password :: "jsstring option"
  rb_name :: "jsstring option"
  rb_company :: "jsstring option"

text \<open>
  \<^verbatim>\<open>POST /api/auth/register\<close>. \<open>toLowerCase\<close> is the method of that name of the
  language and \<open>hash\<close> is \<^verbatim>\<open>bcrypt.hash(password, 12)\<close>; both are parameters. The result
  is the response, the store and \<^verbatim>\<open>req.session.userId\<close>.
\<close>

definition register ::
  "(jsstring \<Rightarrow> jsstring) \<Rightarrow> (jsstring \<Rightarrow> jsstring) \<Rightarrow> db \<Rightarrow> nat option \<Rightarrow> register_body
   \<Rightarrow> response \<times> db \<times> nat option" where
  "register toLowerCase hash d userId b =
     (if \<not> str_truthy (rb_email b) \<or> \<not> str_truthy (rb_password b)
         \<or> \<not> str_truthy (rb_name b)
      then (reply 400 (ErrorBody (str ''Email, password, and name are required'')), d, userId)
      else
        (case (rb_email b, rb_password b, rb_name b) of
           (Some email, Some password, Some name) \<Rightarrow>
             if length password < 6
             then (reply 400 (ErrorBody (str ''Password must be at least 6 characters'')),
                   d, userId)
             else if \<not> db_ok d
             then (reply 500 (ErrorBody (str ''Registration failed'')), d, userId)
             else if filter (\<lambda>u. u_email u = trim (toLowerCase email)) (users d) \<noteq> []
             then (reply 409 (ErrorBody (str ''Email already registered'')), d, userId)
             else
               (case insert_user d (trim (toLowerCase email)) (hash password) (trim name)
                       (trim (str_or (rb_company b) [])) of
                  None \<Rightarrow> (reply 500 (ErrorBody (str ''Registration failed'')), d, userId)
                | Some (user, d') \<Rightarrow>
                    (reply 200
                       (UserBody \<lparr>uv_id = u_id user, uv_email = u_email user,
                                  uv_name = u_name user, uv_company = u_company user\<rparr>),
                     d', Some (u_id user)))
         | _ \<Rightarrow>
             (reply 400 (ErrorBody (str ''Email, password, and name are required'')),
              d, userId)))"

section \<open>The constraints of the table of reports\<close>

text \<open>
  \<^verbatim>\<open>id SERIAL PRIMARY KEY\<close> and \<^verbatim>\<open>report_id VARCHAR(50) UNIQUE NOT NULL\<close>: no two rows
  share an id or a report id, and the counter is beyond every id in use.
\<close>

definition db_inv :: "db \<Rightarrow> bool" where
  "db_inv d =
     (distinct (map r_report_id (reports d)) \<and> distinct (map r_id (reports d))
      \<and> list_all (\<lambda>r. r_id r < next_report_id d) (reports d))"

section \<open>The shape of an assessment record, in the words of the specification\<close>

text \<open>
  The specification (section 4.2) describes a validation of the parsed value: each of the
  four sections is present as an object, the status of a section belongs to the set of
  that section (the facility section has \<^verbatim>\<open>info\<close> where the others have \<^verbatim>\<open>fail\<close>),
  and the keys of both languages exist. The predicate below follows these words, with
  the key names of the schema in \<^verbatim>\<open>buildAnalysisPrompt\<close>; no function of the server
  computes it.
\<close>

definition spec_status_enum :: "jsstring \<Rightarrow> jsstring list" where
  "spec_status_enum section =
     (if section = str ''facilityRegistration''
      then [str ''pass'', str ''warn'', str ''info'']
      else [str ''pass'', str ''warn'', str ''fail''])"

definition spec_has_key :: "json \<Rightarrow> jsstring \<Rightarrow> bool" where
  "spec_has_key v k = (get_prop v k \<noteq> None)"

definition spec_items_ok :: "json \<Rightarrow> jsstring \<Rightarrow> jsstring \<Rightarrow> bool" where
  "spec_items_ok section k kCn =
     (case get_prop section (str ''items'') of
        Some (JArr items) \<Rightarrow> list_all (\<lambda>item. spec_has_key item k \<and> spec_has_key item kCn) items
      | _ \<Rightarrow> True)"

definition spec_section_ok :: "json \<Rightarrow> jsstring \<Rightarrow> jsstring \<Rightarrow> jsstring \<Rightarrow> bool" where
  "spec_section_ok record section k kCn =
     (case get_prop record section of
        Some (JObj kvs) \<Rightarrow>
          (case map_of kvs (str ''status'') of
             Some (JStr s) \<Rightarrow> s \<in> set (spec_status_enum section)
           | _ \<Rightarrow> False)
          \<and> spec_items_ok (JObj kvs) k kCn
      | _ \<Rightarrow> False)"

definition spec_shape_valid :: "json \<Rightarrow> bool" where
  "spec_shape_valid record =
     (spec_section_ok record (str ''ingredientRisk'') (str ''name'') (str ''nameCn'')
      \<and> spec_section_ok record (str ''labelCompliance'') (str ''name'') (str ''nameCn'')
      \<and> spec_section_ok record (str ''facilityRegistration'') (str ''name'') (str ''nameCn'')
      \<and> spec_section_ok record (str ''marketingClaims'') (str ''claim'') (str ''claimCn'')
      \<and> spec_has_key record (str ''overallVerdict'')
      \<and> spec_has_key record (str ''overallVerdictCn'')
      \<and> spec_has_key record (str ''recommendations'')
      \<and> spec_has_key record (str ''recommendationsCn''))"

section \<open>Example inputs\<close>

text \<open>Two users, one report of the second user, and requests to save a record.\<close>

definition alice :: user_row where
  "alice = \<lparr>u_id = 1, u_email = str ''alice@example.com'', u_password_hash = str ''h1'',
            u_name = str ''Alice'', u_company = [], u_created_at = 1\<rparr>"

definition bob :: user_row where
  "bob = \<lparr>u_id = 2, u_email = str ''bob@example.com'', u_password_hash = str ''h2'',
          u_name = str ''Bob'', u_company = [], u_created_at = 2\<rparr>"

definition bobs_report :: report_row where
  "bobs_report = \<lparr>r_id = 1, r_user_id = 2, r_report_id = str ''GTM-B1'',
                  r_title = str ''Tea'', r_data = JObj [], r_lang = str ''en'', r_score = 2,
                  r_created_at = 3\<rparr>"

definition example_db :: db where
  "example_db = \<lparr>users = [alice, bob], reports = [bobs_report], next_user_id = 3,
                 next_report_id = 2, db_now = 4, db_ok = True\<rparr>"

definition record_with_level :: "json \<Rightarrow> json" where
  "record_with_level v = JObj [(str ''overallRiskLevel'', v)]"

definition save_of :: "json \<Rightarrow> save_body" where
  "save_of reportData = \<lparr>sb_reportData = Some reportData, sb_lang = None, sb_title = None\<rparr>"

text \<open>
  Replies of the model: the empty object inside a fenced block, the same with prose
  around it, and a text that is not JSON. \<open>parse_example\<close> is \<^verbatim>\<open>JSON.parse\<close> on the
  texts that these replies lead to: the text \<^verbatim>\<open>{}\<close> is the empty object, the others
  are no JSON.
\<close>

definition parse_example :: "jsstring \<Rightarrow> json option" where
  "parse_example s = (if s = str ''{}'' then Some (JObj []) else None)"

definition fenced_reply :: jsstring where
  "fenced_reply = fence @ str ''json'' @ [0x0A] @ str ''{}'' @ [0x0A] @ fence"

definition wrapped_reply :: jsstring where
  "wrapped_reply =
     str ''Here is the result:'' @ [0x0A] @ fence @ str ''json'' @ [0x0A] @ str ''{}''
       @ [0x0A] @ fence @ [0x0A] @ str ''Hope this helps!''"

definition broken_reply :: jsstring where
  "broken_reply = str ''{ invalid json''"

text \<open>
  Requests to the analysis endpoint: uploaded files, the upload directory that holds them,
  a configured key, a model that answers with a given text, a model whose call throws, and
  a reply of 1000 letters.
\<close>

definition png_file :: upfile where
  "png_file = \<lparr>path = str ''uploads/1700000000000-42.png'', mimetype = str ''image/png''\<rparr>"

definition pdf_file :: upfile where
  "pdf_file = \<lparr>path = str ''uploads/1700000000001-7.pdf'', mimetype = str ''application/pdf''\<rparr>"

definition png_req :: analyze_req where
  "png_req = \<lparr>req_files = Some [png_file], req_lang = None\<rparr>"

definition pdf_req :: analyze_req where
  "pdf_req = \<lparr>req_files = Some [pdf_file, png_file], req_lang = None\<rparr>"

definition png_disk :: fs where
  "png_disk = {path png_file}"

definition api_key :: "jsstring option" where
  "api_key = Some (str ''secret'')"

definition answering :: "jsstring \<Rightarrow> jsstring \<Rightarrow> image_part list \<Rightarrow> jsstring + jsstring" where
  "answering text lang parts = Inr text"

definition failing :: "jsstring \<Rightarrow> jsstring \<Rightarrow> image_part list \<Rightarrow> jsstring + jsstring" where
  "failing m lang parts = Inl m"

definition long_reply :: jsstring where
  "long_reply = replicate 1000 0x61"

text \<open>
  A registration. \<open>toLowerCase_ascii\<close> is \<^verbatim>\<open>toLowerCase\<close> on ASCII text, and
  \<open>example_hash\<close> stands for \<^verbatim>\<open>bcrypt.hash\<close>, whose value no example depends on.
\<close>

definition toLowerCase_ascii :: "jsstring \<Rightarrow> jsstring" where
  "toLowerCase_ascii s = map (\<lambda>c. if 0x41 \<le> c \<and> c \<le> 0x5A then c + 0x20 else c) s"

definition example_hash :: "jsstring \<Rightarrow> jsstring" where
  "example_hash password = str ''hash of '' @ password"

definition carol :: "jsstring \<Rightarrow> register_body" where
  "carol password = \<lparr>rb_email = Some (str ''Carol@Example.com''), rb_password = Some password,
                     rb_name = Some (str ''Carol''), rb_company = None\<rparr>"

section \<open>The two tiers of the recovery\<close>

lemma takeWhile_ne_less: "c \<in> set s \<Longrightarrow> length (takeWhile (\<lambda>x. x \<noteq> c) s) < length s"
  by (induction s) auto

lemma indexOf_absent: "(indexOf s c = - 1) = (c \<notin> set s)"
  by (simp add: indexOf_def)

lemma lastIndexOf_absent: "(lastIndexOf s c = - 1) = (c \<notin> set s)"
proof (cases "c \<in> set s")
  case True
  then have "c \<in> set (rev s)" by simp
  then have "length (takeWhile (\<lambda>x. x \<noteq> c) (rev s)) < length (rev s)"
    by (rule takeWhile_ne_less)
  then show ?thesis using True by (simp add: lastIndexOf_def)
next
  case False
  then show ?thesis by (simp add: lastIndexOf_def)
qed

lemma indexOf_first:
  assumes "c \<in> set s"
  shows "0 \<le> indexOf s c" and "nat (indexOf s c) < length s"
    and "s ! nat (indexOf s c) = c" and "\<forall>j < nat (indexOf s c). s ! j \<noteq> c"
proof -
  let ?n = "length (takeWhile (\<lambda>x. x \<noteq> c) s)"
  have i: "indexOf s c = int ?n" using assms by (simp add: indexOf_def)
  have lt: "?n < length s" using assms by (rule takeWhile_ne_less)
  show "0 \<le> indexOf s c" by (simp add: i)
  show "nat (indexOf s c) < length s" using lt by (simp add: i)
  show "s ! nat (indexOf s c) = c"
    using nth_length_takeWhile [OF lt] by (simp add: i)
  show "\<forall>j < nat (indexOf s c). s ! j \<noteq> c"
  proof (intro allI impI)
    fix j assume "j < nat (indexOf s c)"
    then have j: "j < ?n" by (simp add: i)
    then have "takeWhile (\<lambda>x. x \<noteq> c) s ! j = s ! j" by (rule takeWhile_nth)
    moreover have "takeWhile (\<lambda>x. x \<noteq> c) s ! j \<in> set (takeWhile (\<lambda>x. x \<noteq> c) s)"
      using j by simp
    ultimately show "s ! j \<noteq> c" by (metis (mono_tags, lifting) set_takeWhileD)
  qed
qed

lemma lastIndexOf_last:
  assumes "c \<in> set s"
  shows "0 \<le> lastIndexOf s c" and "nat (lastIndexOf s c) < length s"
    and "s ! nat (lastIndexOf s c) = c"
    and "\<forall>j. nat (lastIndexOf s c) < j \<and> j < length s \<longrightarrow> s ! j \<noteq> c"
proof -
  let ?k = "length (takeWhile (\<lambda>x. x \<noteq> c) (rev s))"
  have cr: "c \<in> set (rev s)" using assms by simp
  have lt: "?k < length s" using takeWhile_ne_less [OF cr] by simp
  have l: "lastIndexOf s c = int (length s) - 1 - int ?k"
    using assms by (simp add: lastIndexOf_def)
  have n: "nat (lastIndexOf s c) = length s - 1 - ?k" using lt by (simp add: l)
  show "0 \<le> lastIndexOf s c" using lt by (simp add: l)
  show "nat (lastIndexOf s c) < length s" using lt by (simp add: n)
  have "rev s ! ?k = c"
    using nth_length_takeWhile [of "\<lambda>x. x \<noteq> c" "rev s"] lt by simp
  then show "s ! nat (lastIndexOf s c) = c"
    using lt by (simp add: n rev_nth)
  show "\<forall>j. nat (lastIndexOf s c) < j \<and> j < length s \<longrightarrow> s ! j \<noteq> c"
  proof (intro allI impI)
    fix j assume a: "nat (lastIndexOf s c) < j \<and> j < length s"
    let ?m = "length s - 1 - j"
    have m: "?m < ?k" using a lt by (simp add: n) arith
    then have "takeWhile (\<lambda>x. x \<noteq> c) (rev s) ! ?m = rev s ! ?m" by (rule takeWhile_nth)
    moreover have "takeWhile (\<lambda>x. x \<noteq> c) (rev s) ! ?m \<in> set (takeWhile (\<lambda>x. x \<noteq> c) (rev s))"
      using m by simp
    ultimately have "rev s ! ?m \<noteq> c" by (metis (mono_tags, lifting) set_takeWhileD)
    moreover have "rev s ! ?m = s ! (length s - Suc ?m)"
      using a by (intro rev_nth) arith
    moreover have "length s - Suc ?m = j" using a by arith
    ultimately show "s ! j \<noteq> c" by simp
  qed
qed

lemma substring_slice:
  "0 \<le> a \<Longrightarrow> a \<le> b \<Longrightarrow> b \<le> int (length s) \<Longrightarrow>
   substring s a b = take (nat (b - a)) (drop (nat a) s)"
  by (simp add: substring_def Let_def min_def max_def)

lemma substring_prefix: "0 \<le> n \<Longrightarrow> substring s 0 n = take (nat n) s"
  by (auto simp add: substring_def Let_def min_def max_def)

lemma jsonStr_slice:
  assumes "indexOf text 0x7B \<noteq> - 1" and "indexOf text 0x7B < lastIndexOf text 0x7D"
  shows "jsonStr text =
           take (nat (lastIndexOf text 0x7D + 1 - indexOf text 0x7B))
             (drop (nat (indexOf text 0x7B)) text)"
    and "hd (jsonStr text) = 0x7B" and "last (jsonStr text) = 0x7D"
    and "2 \<le> length (jsonStr text)"
proof -
  let ?f = "indexOf text 0x7B" and ?l = "lastIndexOf text 0x7D"
  have o: "0x7B \<in> set text" using assms(1) by (simp add: indexOf_absent)
  have f0: "0 \<le> ?f" by (rule indexOf_first(1) [OF o])
  have "?l \<noteq> - 1" using f0 assms(2) by simp
  then have c: "0x7D \<in> set text" by (simp add: lastIndexOf_absent)
  have ll: "nat ?l < length text" by (rule lastIndexOf_last(2) [OF c])
  have l0: "0 \<le> ?l" by (rule lastIndexOf_last(1) [OF c])
  show s: "jsonStr text = take (nat (?l + 1 - ?f)) (drop (nat ?f) text)"
    unfolding jsonStr_def using f0 assms(2) ll l0 by (intro substring_slice) auto
  have len: "length (jsonStr text) = nat (?l + 1 - ?f)"
    using ll l0 f0 assms(2) by (simp add: s)
  show "2 \<le> length (jsonStr text)" using assms(2) by (simp add: len)
  have "hd (jsonStr text) = text ! nat ?f"
    using assms(2) f0 ll l0 by (simp add: s hd_drop_conv_nth)
  then show "hd (jsonStr text) = 0x7B" using indexOf_first(3) [OF o] by simp
  have ne: "jsonStr text \<noteq> []" using len assms(2) by auto
  have "last (jsonStr text) = jsonStr text ! (length (jsonStr text) - 1)"
    by (rule last_conv_nth [OF ne])
  also have "\<dots> = text ! (nat ?f + (nat (?l + 1 - ?f) - 1))"
    using assms(2) f0 ll l0 by (simp add: s len)
  also have "nat ?f + (nat (?l + 1 - ?f) - 1) = nat ?l"
    using assms(2) f0 l0 by simp
  finally show "last (jsonStr text) = 0x7D" using lastIndexOf_last(3) [OF c] by simp
qed

lemma parseGeminiJSON_strict:
  "parse (cleaned text) = Some v \<Longrightarrow> parseGeminiJSON parse text = (Inr v, [cleaned text])"
  by (simp add: parseGeminiJSON_def)

lemma parseGeminiJSON_salvage:
  "parse (cleaned text) = None \<Longrightarrow> indexOf text 0x7B \<noteq> - 1
   \<Longrightarrow> indexOf text 0x7B < lastIndexOf text 0x7D
   \<Longrightarrow> parseGeminiJSON parse text =
         ((case parse (jsonStr text) of Some w \<Rightarrow> Inr w | None \<Rightarrow> Inl SyntaxError),
          [cleaned text, jsonStr text])"
  by (simp add: parseGeminiJSON_def jsonStr_def Let_def split: option.splits)

lemma parseGeminiJSON_no_object:
  "parse (cleaned text) = None
   \<Longrightarrow> indexOf text 0x7B = - 1 \<or> lastIndexOf text 0x7D \<le> indexOf text 0x7B
   \<Longrightarrow> parseGeminiJSON parse text =
         (Inl (Error (str ''No JSON object found in response'')), [cleaned text])"
  by (auto simp add: parseGeminiJSON_def Let_def)

lemma replace_json_fence_plain: "0x60 \<notin> set s \<Longrightarrow> replace_json_fence s = s"
  by (induction s) (auto simp add: at_json_fence_def fence_def)

lemma replace_fence_plain: "0x60 \<notin> set s \<Longrightarrow> replace_fence s = s"
  by (induction s) (auto simp add: fence_def)

lemma cleaned_plain: "0x60 \<notin> set text \<Longrightarrow> cleaned text = trim text"
  by (simp add: cleaned_def replace_json_fence_plain replace_fence_plain)

lemma cleaned_fenced_reply: "cleaned fenced_reply = str ''{}''"
  by (simp add: cleaned_def fenced_reply_def trim_def is_ws_def at_json_fence_def fence_def
        str_def)

lemma cleaned_wrapped_reply:
  "cleaned wrapped_reply =
     str ''Here is the result:'' @ [0x0A] @ str ''{}'' @ [0x0A] @ str ''Hope this helps!''"
  by (simp add: cleaned_def wrapped_reply_def trim_def is_ws_def at_json_fence_def fence_def
        str_def)

lemma cleaned_broken_reply: "cleaned broken_reply = broken_reply"
  by (simp add: cleaned_def broken_reply_def trim_def is_ws_def at_json_fence_def fence_def
        str_def)

lemma braces_wrapped_reply:
  "indexOf wrapped_reply 0x7B = 28" "lastIndexOf wrapped_reply 0x7D = 29"
  "jsonStr wrapped_reply = str ''{}''"
  by (simp_all add: jsonStr_def indexOf_def lastIndexOf_def substring_def wrapped_reply_def
        fence_def str_def Let_def)

lemma braces_broken_reply:
  "indexOf broken_reply 0x7B = 0" "lastIndexOf broken_reply 0x7D = - 1"
  by (simp_all add: indexOf_def lastIndexOf_def broken_reply_def str_def)

text \<open>
  C1. \<^verbatim>\<open>parseGeminiJSON\<close> has two tiers in a fixed order. The first call of
  \<^verbatim>\<open>JSON.parse\<close> gets the text with the fences removed and trimmed; when it succeeds
  its value is returned and no other call is made. Only when it fails are the first
  opening brace and the last closing brace of the raw text located; when both exist and
  the first comes before the last, the slice from the one to the other is parsed, and
  otherwise the function throws. A second call is never made after a first that
  succeeded.
\<close>

theorem parseGeminiJSON_two_tiers:
  "(parse (cleaned text) = Some v \<longrightarrow>
      parseGeminiJSON parse text = (Inr v, [cleaned text]))
   \<and> (parse (cleaned text) = None \<and> indexOf text 0x7B \<noteq> - 1
        \<and> indexOf text 0x7B < lastIndexOf text 0x7D \<longrightarrow>
      parseGeminiJSON parse text =
        ((case parse (jsonStr text) of Some w \<Rightarrow> Inr w | None \<Rightarrow> Inl SyntaxError),
         [cleaned text, jsonStr text])
      \<and> jsonStr text =
          take (nat (lastIndexOf text 0x7D + 1 - indexOf text 0x7B))
            (drop (nat (indexOf text 0x7B)) text)
      \<and> text ! nat (indexOf text 0x7B) = 0x7B
      \<and> (\<forall>j < nat (indexOf text 0x7B). text ! j \<noteq> 0x7B)
      \<and> text ! nat (lastIndexOf text 0x7D) = 0x7D
      \<and> (\<forall>j. nat (lastIndexOf text 0x7D) < j \<and> j < length text \<longrightarrow> text ! j \<noteq> 0x7D))
   \<and> (parse (cleaned text) = None
        \<and> (indexOf text 0x7B = - 1 \<or> lastIndexOf text 0x7D \<le> indexOf text 0x7B) \<longrightarrow>
      parseGeminiJSON parse text =
        (Inl (Error (str ''No JSON object found in response'')), [cleaned text]))
   \<and> (snd (parseGeminiJSON parse text) \<noteq> [cleaned text] \<longrightarrow>
        parse (cleaned text) = None
        \<and> snd (parseGeminiJSON parse text) = [cleaned text, jsonStr text])
   \<and> cleaned text = trim (replace_fence (replace_json_fence text))"
proof (intro conjI impI)
  assume "parse (cleaned text) = Some v"
  then show "parseGeminiJSON parse text = (Inr v, [cleaned text])"
    by (rule parseGeminiJSON_strict)
next
  assume a: "parse (cleaned text) = None \<and> indexOf text 0x7B \<noteq> - 1
             \<and> indexOf text 0x7B < lastIndexOf text 0x7D"
  then have o: "0x7B \<in> set text" by (simp add: indexOf_absent)
  have "lastIndexOf text 0x7D \<noteq> - 1" using a indexOf_first(1) [OF o] by simp
  then have c: "0x7D \<in> set text" by (simp add: lastIndexOf_absent)
  show "parseGeminiJSON parse text =
        ((case parse (jsonStr text) of Some w \<Rightarrow> Inr w | None \<Rightarrow> Inl SyntaxError),
         [cleaned text, jsonStr text])"
    using a by (simp add: parseGeminiJSON_salvage)
  show "jsonStr text =
          take (nat (lastIndexOf text 0x7D + 1 - indexOf text 0x7B))
            (drop (nat (indexOf text 0x7B)) text)"
    using a by (simp add: jsonStr_slice(1))
  show "text ! nat (indexOf text 0x7B) = 0x7B" by (rule indexOf_first(3) [OF o])
  show "\<forall>j < nat (indexOf text 0x7B). text ! j \<noteq> 0x7B" by (rule indexOf_first(4) [OF o])
  show "text ! nat (lastIndexOf text 0x7D) = 0x7D" by (rule lastIndexOf_last(3) [OF c])
  show "\<forall>j. nat (lastIndexOf text 0x7D) < j \<and> j < length text \<longrightarrow> text ! j \<noteq> 0x7D"
    by (rule lastIndexOf_last(4) [OF c])
next
  assume "parse (cleaned text) = None
          \<and> (indexOf text 0x7B = - 1 \<or> lastIndexOf text 0x7D \<le> indexOf text 0x7B)"
  then show "parseGeminiJSON parse text =
        (Inl (Error (str ''No JSON object found in response'')), [cleaned text])"
    by (simp add: parseGeminiJSON_no_object)
next
  assume n: "snd (parseGeminiJSON parse text) \<noteq> [cleaned text]"
  then show "parse (cleaned text) = None"
    by (cases "parse (cleaned text)") (simp_all add: parseGeminiJSON_strict)
  with n show "snd (parseGeminiJSON parse text) = [cleaned text, jsonStr text]"
    by (auto simp add: parseGeminiJSON_def jsonStr_def Let_def split: if_splits option.splits)
next
  show "cleaned text = trim (replace_fence (replace_json_fence text))"
    by (simp add: cleaned_def)
qed

theorem parseGeminiJSON_two_tiers_witness:
  "parse_example (cleaned fenced_reply) = Some (JObj [])
   \<and> parseGeminiJSON parse_example fenced_reply = (Inr (JObj []), [str ''{}''])
   \<and> parse_example (cleaned wrapped_reply) = None
   \<and> indexOf wrapped_reply 0x7B \<noteq> - 1
   \<and> indexOf wrapped_reply 0x7B < lastIndexOf wrapped_reply 0x7D
   \<and> parseGeminiJSON parse_example wrapped_reply =
       (Inr (JObj []), [cleaned wrapped_reply, str ''{}''])
   \<and> parse_example (cleaned broken_reply) = None
   \<and> lastIndexOf broken_reply 0x7D \<le> indexOf broken_reply 0x7B
   \<and> parseGeminiJSON parse_example broken_reply =
       (Inl (Error (str ''No JSON object found in response'')), [broken_reply])"
proof -
  have f: "parse_example (cleaned fenced_reply) = Some (JObj [])"
    by (simp add: cleaned_fenced_reply parse_example_def)
  have w: "parse_example (cleaned wrapped_reply) = None"
    by (simp add: cleaned_wrapped_reply parse_example_def str_def)
  have b: "parse_example (cleaned broken_reply) = None"
    by (subst cleaned_broken_reply) (simp add: parse_example_def broken_reply_def str_def)
  have j: "parse_example (jsonStr wrapped_reply) = Some (JObj [])"
    by (simp add: braces_wrapped_reply parse_example_def)
  have i: "indexOf wrapped_reply 0x7B \<noteq> - 1"
    "indexOf wrapped_reply 0x7B < lastIndexOf wrapped_reply 0x7D"
    by (simp_all add: braces_wrapped_reply)
  have k: "lastIndexOf broken_reply 0x7D \<le> indexOf broken_reply 0x7B"
    by (simp add: braces_broken_reply)
  have 1: "parseGeminiJSON parse_example fenced_reply = (Inr (JObj []), [cleaned fenced_reply])"
    using parseGeminiJSON_two_tiers [of parse_example fenced_reply "JObj []"] f by blast
  have 2: "parseGeminiJSON parse_example wrapped_reply =
        ((case parse_example (jsonStr wrapped_reply) of Some w \<Rightarrow> Inr w
          | None \<Rightarrow> Inl SyntaxError),
         [cleaned wrapped_reply, jsonStr wrapped_reply])"
    using parseGeminiJSON_two_tiers [of parse_example wrapped_reply "JObj []"] w i by blast
  have 3: "parseGeminiJSON parse_example broken_reply =
        (Inl (Error (str ''No JSON object found in response'')), [cleaned broken_reply])"
    using parseGeminiJSON_two_tiers [of parse_example broken_reply "JObj []"] b k by blast
  show ?thesis
    using f w b i k
    by (simp add: 1 2 3 j cleaned_fenced_reply cleaned_broken_reply braces_wrapped_reply(3))
qed

section \<open>The analysis endpoint: parse failures, demo mode, uploads\<close>

lemma cleanupFiles_eq: "cleanupFiles disk files = disk - set (map path files)"
  by (induction files arbitrary: disk) auto

text \<open>
  The endpoint in live mode: a key is configured, at least one file became a part, and the
  model answered.
\<close>

lemma analyze_live:
  assumes "str_truthy apiKey" and "req_files req = Some files" and "files \<noteq> []"
    and "filesToImageParts disk files = Inr parts" and "parts \<noteq> []"
    and "generate (str_or (req_lang req) (str ''en'')) parts = Inr text"
  shows "analyze apiKey parse generate disk req =
           (case fst (parseGeminiJSON parse text) of
              Inl e \<Rightarrow>
                (reply 500 (ParseErrorBody (str ''Failed to parse AI response'')
                   (substring text 0 800)), disk)
            | Inr data \<Rightarrow>
                (reply 200 (AnalysisBody True False None data), cleanupFiles disk files))"
  using assms by (simp add: analyze_def getGeminiClient_def Let_def str_truthy_def split: option.splits)

lemma analyze_demo:
  assumes "\<not> str_truthy apiKey" and "req_files req = Some files" and "files \<noteq> []"
  shows "analyze apiKey parse generate disk req =
           (reply 200
              (AnalysisBody True True
                 (Some (str ''GEMINI_API_KEY not configured. Returning demo analysis.''))
                 (getDemoData (str_or (req_lang req) (str ''en'')))),
            disk)"
  using assms by (simp add: analyze_def getGeminiClient_def Let_def)

lemma parts_png: "filesToImageParts png_disk [png_file] =
    Inr [\<lparr>ip_path = path png_file, ip_mimeType = str ''image/png''\<rparr>]"
  by (simp add: png_disk_def png_file_def startsWith_def str_def)

lemma analyze_png:
  "analyze api_key parse (answering text) png_disk png_req =
     (case fst (parseGeminiJSON parse text) of
        Inl e \<Rightarrow>
          (reply 500 (ParseErrorBody (str ''Failed to parse AI response'')
             (substring text 0 800)), png_disk)
      | Inr data \<Rightarrow> (reply 200 (AnalysisBody True False None data), {}))"
proof -
  have k: "str_truthy api_key" by (simp add: api_key_def str_truthy_def str_def)
  show ?thesis
    using analyze_live [OF k _ _ parts_png, of png_req "answering text" "text" parse]
    by (simp add: png_req_def answering_def png_disk_def split: sum.splits)
qed

lemma analyze_body_cases:
  assumes "body (fst (analyze apiKey parse generate disk req)) = ParseErrorBody msg raw"
  shows "\<exists>parts text. generate (str_or (req_lang req) (str ''en'')) parts = Inr text
           \<and> raw = substring text 0 800 \<and> msg = str ''Failed to parse AI response''
           \<and> status (fst (analyze apiKey parse generate disk req)) = 500
           \<and> isl (fst (parseGeminiJSON parse text))"
  using assms
  by (fastforce simp add: analyze_def Let_def reply_def
        split: option.splits if_splits sum.splits)

lemma analyze_disk_kept:
  assumes "\<forall>data. body (fst (analyze apiKey parse generate disk req))
             \<noteq> AnalysisBody True False None data"
  shows "snd (analyze apiKey parse generate disk req) = disk"
  using assms
  by (auto simp add: analyze_def Let_def reply_def split: option.splits if_splits sum.splits)

lemma parse_calls_at_most_two: "length (snd (parseGeminiJSON parse text)) \<le> 2"
  by (simp add: parseGeminiJSON_def Let_def split: option.splits)

lemma parseGeminiJSON_both_fail:
  "parse (cleaned text) = None \<Longrightarrow> parse (jsonStr text) = None
   \<Longrightarrow> isl (fst (parseGeminiJSON parse text))"
  by (simp add: parseGeminiJSON_def jsonStr_def Let_def)

lemma parseGeminiJSON_value:
  "fst (parseGeminiJSON parse text) = Inr v
   \<Longrightarrow> parse (cleaned text) = Some v \<or> parse (jsonStr text) = Some v"
  by (auto simp add: parseGeminiJSON_def jsonStr_def Let_def split: option.splits if_splits)

lemma getDemoData_two_records:
  "lang \<noteq> str ''cn'' \<Longrightarrow> getDemoData lang = getDemoData (str ''en'')"
  by (simp add: getDemoData_def) (simp add: str_def)

text \<open>
  C5. When the first parse fails and the raw text has no opening brace, or its last
  closing brace does not come after its first opening brace, \<^verbatim>\<open>parseGeminiJSON\<close> throws
  after that single attempt, and the endpoint answers 500 with the parse failure and an
  excerpt of the text. Whenever both parses fail the function fails, and it never calls
  \<^verbatim>\<open>JSON.parse\<close> a third time.
\<close>

theorem parseGeminiJSON_no_braces_fails:
  assumes "parse (cleaned text) = None"
  shows "(0x7B \<notin> set text \<or> lastIndexOf text 0x7D \<le> indexOf text 0x7B \<longrightarrow>
            parseGeminiJSON parse text =
              (Inl (Error (str ''No JSON object found in response'')), [cleaned text])
            \<and> (str_truthy apiKey \<and> req_files req = Some files \<and> files \<noteq> []
                \<and> filesToImageParts disk files = Inr parts \<and> parts \<noteq> []
                \<and> generate (str_or (req_lang req) (str ''en'')) parts = Inr text \<longrightarrow>
               analyze apiKey parse generate disk req =
                 (reply 500 (ParseErrorBody (str ''Failed to parse AI response'')
                    (take 800 text)), disk)))
         \<and> (parse (jsonStr text) = None \<longrightarrow> isl (fst (parseGeminiJSON parse text)))
         \<and> length (snd (parseGeminiJSON parse text)) \<le> 2"
proof (intro conjI impI)
  assume b: "0x7B \<notin> set text \<or> lastIndexOf text 0x7D \<le> indexOf text 0x7B"
  then have "indexOf text 0x7B = - 1 \<or> lastIndexOf text 0x7D \<le> indexOf text 0x7B"
    by (simp add: indexOf_absent)
  then show p: "parseGeminiJSON parse text =
      (Inl (Error (str ''No JSON object found in response'')), [cleaned text])"
    using assms by (simp add: parseGeminiJSON_no_object)
  assume h: "str_truthy apiKey \<and> req_files req = Some files \<and> files \<noteq> []
          \<and> filesToImageParts disk files = Inr parts \<and> parts \<noteq> []
          \<and> generate (str_or (req_lang req) (str ''en'')) parts = Inr text"
  have "analyze apiKey parse generate disk req =
           (case fst (parseGeminiJSON parse text) of
              Inl e \<Rightarrow>
                (reply 500 (ParseErrorBody (str ''Failed to parse AI response'')
                   (substring text 0 800)), disk)
            | Inr data \<Rightarrow>
                (reply 200 (AnalysisBody True False None data), cleanupFiles disk files))"
    using h by (intro analyze_live [where parts = parts]) simp_all
  then show "analyze apiKey parse generate disk req =
      (reply 500 (ParseErrorBody (str ''Failed to parse AI response'') (take 800 text)), disk)"
    by (simp add: p substring_prefix)
next
  assume "parse (jsonStr text) = None"
  then show "isl (fst (parseGeminiJSON parse text))"
    using assms by (simp add: parseGeminiJSON_both_fail)
next
  show "length (snd (parseGeminiJSON parse text)) \<le> 2"
    by (rule parse_calls_at_most_two)
qed

theorem parseGeminiJSON_no_braces_fails_witness:
  "parse_example (cleaned broken_reply) = None
   \<and> lastIndexOf broken_reply 0x7D \<le> indexOf broken_reply 0x7B
   \<and> parseGeminiJSON parse_example broken_reply =
       (Inl (Error (str ''No JSON object found in response'')), [broken_reply])
   \<and> analyze api_key parse_example (answering broken_reply) png_disk png_req =
       (reply 500 (ParseErrorBody (str ''Failed to parse AI response'') broken_reply),
        png_disk)"
proof -
  have b: "parse_example (cleaned broken_reply) = None"
    by (subst cleaned_broken_reply) (simp add: parse_example_def broken_reply_def str_def)
  have k: "lastIndexOf broken_reply 0x7D \<le> indexOf broken_reply 0x7B"
    by (simp add: braces_broken_reply)
  have a: "str_truthy api_key \<and> req_files png_req = Some [png_file] \<and> [png_file] \<noteq> []
      \<and> filesToImageParts png_disk [png_file]
          = Inr [\<lparr>ip_path = path png_file, ip_mimeType = str ''image/png''\<rparr>]
      \<and> [\<lparr>ip_path = path png_file, ip_mimeType = str ''image/png''\<rparr>] \<noteq> []
      \<and> answering broken_reply (str_or (req_lang png_req) (str ''en''))
           [\<lparr>ip_path = path png_file, ip_mimeType = str ''image/png''\<rparr>] = Inr broken_reply"
  proof (intro conjI)
    show "filesToImageParts png_disk [png_file]
          = Inr [\<lparr>ip_path = path png_file, ip_mimeType = str ''image/png''\<rparr>]"
      by (rule parts_png)
  qed (simp_all add: api_key_def str_truthy_def png_req_def answering_def str_def)
  have t: "take 800 broken_reply = broken_reply"
    by (simp add: broken_reply_def str_def)
  note w = parseGeminiJSON_no_braces_fails
      [where parse = parse_example and ?text = broken_reply and apiKey = api_key
         and req = png_req and files = "[png_file]" and disk = png_disk
         and parts = "[\<lparr>ip_path = path png_file, ip_mimeType = str ''image/png''\<rparr>]"
         and generate = "answering broken_reply", OF b]
  have c: "0x7B \<notin> set broken_reply
           \<or> lastIndexOf broken_reply 0x7D \<le> indexOf broken_reply 0x7B"
    using k by simp
  note w1 = w [THEN conjunct1, rule_format, OF c]
  from w1 [THEN conjunct1] w1 [THEN conjunct2, rule_format, OF a]
  have "parseGeminiJSON parse_example broken_reply =
       (Inl (Error (str ''No JSON object found in response'')), [cleaned broken_reply])
     \<and> analyze api_key parse_example (answering broken_reply) png_disk png_req =
         (reply 500 (ParseErrorBody (str ''Failed to parse AI response'')
            (take 800 broken_reply)), png_disk)"
    by (rule conjI)
  then show ?thesis using b k by (simp add: t cleaned_broken_reply)
qed

text \<open>The record of demo mode has the shape that the specification describes.\<close>

lemma demo_record_shape_valid: "spec_shape_valid (getDemoData lang)"
  by (simp add: spec_shape_valid_def spec_section_ok_def spec_items_ok_def spec_has_key_def
        spec_status_enum_def getDemoData_def str_def)

lemma empty_object_not_shape_valid: "\<not> spec_shape_valid (JObj [])"
  by (simp add: spec_shape_valid_def spec_section_ok_def)

text \<open>
  C2, as stated, fails: the reply \<^verbatim>\<open>{}\<close> inside a fenced block parses to the empty
  object, which has none of the four sections, and the endpoint answers 200 with
  \<^verbatim>\<open>success: true\<close> and that object as data.
\<close>

theorem shape_validation_counterexample:
  "parse_example (cleaned fenced_reply) = Some (JObj [])
   \<and> \<not> spec_shape_valid (JObj [])
   \<and> analyze api_key parse_example (answering fenced_reply) png_disk png_req =
       (reply 200 (AnalysisBody True False None (JObj [])), {})"
proof -
  have f: "parse_example (cleaned fenced_reply) = Some (JObj [])"
    by (simp add: cleaned_fenced_reply parse_example_def)
  then have "fst (parseGeminiJSON parse_example fenced_reply) = Inr (JObj [])"
    by (simp add: parseGeminiJSON_strict)
  then have "analyze api_key parse_example (answering fenced_reply) png_disk png_req =
       (reply 200 (AnalysisBody True False None (JObj [])), {})"
    by (simp add: analyze_png)
  then show ?thesis using f empty_object_not_shape_valid by simp
qed

text \<open>
  C2, amended. The endpoint runs no shape validation: whatever value a parse of the reply
  returns (it is the value that \<^verbatim>\<open>JSON.parse\<close> gave for the cleaned text or for the brace
  slice) is sent back with status 200, \<^verbatim>\<open>success: true\<close> and \<^verbatim>\<open>demo: false\<close>; the
  request is refused, with status 500 and the parse failure, only when
  \<^verbatim>\<open>parseGeminiJSON\<close> throws.
\<close>

theorem analyze_returns_parsed_value:
  assumes "str_truthy apiKey" and "req_files req = Some files" and "files \<noteq> []"
    and "filesToImageParts disk files = Inr parts" and "parts \<noteq> []"
    and "generate (str_or (req_lang req) (str ''en'')) parts = Inr text"
  shows "(fst (parseGeminiJSON parse text) = Inr v \<longrightarrow>
            analyze apiKey parse generate disk req =
              (reply 200 (AnalysisBody True False None v), cleanupFiles disk files)
            \<and> (parse (cleaned text) = Some v \<or> parse (jsonStr text) = Some v))
         \<and> (isl (fst (parseGeminiJSON parse text)) \<longrightarrow>
            analyze apiKey parse generate disk req =
              (reply 500 (ParseErrorBody (str ''Failed to parse AI response'')
                 (take 800 text)), disk))"
proof -
  note a = analyze_live
      [where generate = generate and parts = parts and ?text = "text" and parse = parse,
       OF assms]
  show ?thesis
  proof (intro conjI impI)
    assume v: "fst (parseGeminiJSON parse text) = Inr v"
    show "analyze apiKey parse generate disk req =
              (reply 200 (AnalysisBody True False None v), cleanupFiles disk files)"
      by (simp add: a v)
    show "parse (cleaned text) = Some v \<or> parse (jsonStr text) = Some v"
      by (rule parseGeminiJSON_value [OF v])
  next
    assume "isl (fst (parseGeminiJSON parse text))"
    then show "analyze apiKey parse generate disk req =
              (reply 500 (ParseErrorBody (str ''Failed to parse AI response'')
                 (take 800 text)), disk)"
      by (cases "fst (parseGeminiJSON parse text)") (simp_all add: a substring_prefix)
  qed
qed

lemma png_live:
  "str_truthy api_key" "req_files png_req = Some [png_file]" "[png_file] \<noteq> []"
  "[\<lparr>ip_path = path png_file, ip_mimeType = str ''image/png''\<rparr>] \<noteq> []"
  "answering t (str_or (req_lang png_req) (str ''en''))
     [\<lparr>ip_path = path png_file, ip_mimeType = str ''image/png''\<rparr>] = Inr t"
  by (simp_all add: api_key_def str_truthy_def png_req_def answering_def str_def)

theorem analyze_returns_parsed_value_witness:
  "fst (parseGeminiJSON parse_example wrapped_reply) = Inr (JObj [])
   \<and> \<not> spec_shape_valid (JObj [])
   \<and> analyze api_key parse_example (answering wrapped_reply) png_disk png_req =
       (reply 200 (AnalysisBody True False None (JObj [])), cleanupFiles png_disk [png_file])
   \<and> isl (fst (parseGeminiJSON parse_example broken_reply))
   \<and> analyze api_key parse_example (answering broken_reply) png_disk png_req =
       (reply 500 (ParseErrorBody (str ''Failed to parse AI response'')
          (take 800 broken_reply)), png_disk)"
proof -
  have w: "parse_example (cleaned wrapped_reply) = None"
    by (simp add: cleaned_wrapped_reply parse_example_def str_def)
  have j: "parse_example (jsonStr wrapped_reply) = Some (JObj [])"
    by (simp add: braces_wrapped_reply parse_example_def)
  have v: "fst (parseGeminiJSON parse_example wrapped_reply) = Inr (JObj [])"
    by (simp add: parseGeminiJSON_salvage [of parse_example wrapped_reply, OF w] braces_wrapped_reply(1,2) j)
  have b: "parse_example (cleaned broken_reply) = None"
    by (subst cleaned_broken_reply) (simp add: parse_example_def broken_reply_def str_def)
  have e: "isl (fst (parseGeminiJSON parse_example broken_reply))"
    by (simp add: parseGeminiJSON_no_object [of parse_example broken_reply, OF b] braces_broken_reply)
  note t1 = analyze_returns_parsed_value
      [where apiKey = api_key and req = png_req and files = "[png_file]"
         and disk = png_disk and generate = "answering wrapped_reply" and ?text = wrapped_reply
         and parts = "[\<lparr>ip_path = path png_file, ip_mimeType = str ''image/png''\<rparr>]"
         and parse = parse_example and v = "JObj []",
       OF png_live(1,2,3) parts_png png_live(4,5)]
  note t2 = analyze_returns_parsed_value
      [where apiKey = api_key and req = png_req and files = "[png_file]"
         and disk = png_disk and generate = "answering broken_reply" and ?text = broken_reply
         and parts = "[\<lparr>ip_path = path png_file, ip_mimeType = str ''image/png''\<rparr>]"
         and parse = parse_example and v = "JObj []",
       OF png_live(1,2,3) parts_png png_live(4,5)]
  from t1 [THEN conjunct1, rule_format, OF v, THEN conjunct1]
    t2 [THEN conjunct2, rule_format, OF e] v e empty_object_not_shape_valid
  show ?thesis by (intro conjI)
qed

text \<open>
  C8. Every response of the endpoint that reports a parse failure carries an excerpt of
  the model's reply that is its first 800 code units at most, whatever the length of the
  reply.
\<close>

theorem analyze_raw_excerpt_bounded:
  assumes "body (fst (analyze apiKey parse generate disk req)) = ParseErrorBody msg raw"
  shows "length raw \<le> 800
         \<and> (\<exists>parts text. generate (str_or (req_lang req) (str ''en'')) parts = Inr text
               \<and> raw = take 800 text)"
proof -
  from analyze_body_cases [OF assms] obtain parts t where
    g: "generate (str_or (req_lang req) (str ''en'')) parts = Inr t"
    and r: "raw = substring t 0 800"
    by blast
  have "raw = take 800 t" using r by (simp add: substring_prefix)
  then show ?thesis using g by auto
qed

lemma long_reply_fails:
  "parseGeminiJSON parse_example long_reply =
     (Inl (Error (str ''No JSON object found in response'')), [long_reply])"
proof -
  have c: "cleaned long_reply = long_reply"
    by (simp add: cleaned_plain long_reply_def trim_def is_ws_def)
  have "length long_reply \<noteq> length (str ''{}'')"
    by (simp add: long_reply_def str_def)
  then have "long_reply \<noteq> str ''{}''" by auto
  then have p: "parse_example (cleaned long_reply) = None"
    by (simp add: c parse_example_def)
  have "indexOf long_reply 0x7B = - 1"
    by (simp add: indexOf_def long_reply_def)
  then show ?thesis
    using parseGeminiJSON_no_object [of parse_example long_reply, OF p] by (simp add: c)
qed

theorem analyze_raw_excerpt_bounded_witness:
  "body (fst (analyze api_key parse_example (answering long_reply) png_disk png_req))
     = ParseErrorBody (str ''Failed to parse AI response'') (replicate 800 0x61)
   \<and> length long_reply = 1000
   \<and> length (replicate 800 (0x61 :: 16 word)) \<le> 800"
proof -
  have b: "body (fst (analyze api_key parse_example (answering long_reply) png_disk png_req))
     = ParseErrorBody (str ''Failed to parse AI response'') (replicate 800 0x61)"
    by (simp add: analyze_png long_reply_fails reply_def substring_prefix)
      (simp add: long_reply_def)
  from analyze_raw_excerpt_bounded [OF b] show ?thesis
    using b by (simp add: long_reply_def)
qed

text \<open>
  C6. Without a configured key, every request with at least one file is answered with
  status 200, the flag \<^verbatim>\<open>demo: true\<close> and the record \<^verbatim>\<open>getDemoData(lang)\<close>: two such
  requests with the same language get the same response, whatever their files, the upload
  directory and the behaviour of the model and of the parser.
\<close>

theorem analyze_demo_mode_fixed_record:
  assumes "\<not> str_truthy apiKey"
    and "req_files req = Some files" and "files \<noteq> []"
    and "req_files req' = Some files'" and "files' \<noteq> []"
    and "req_lang req' = req_lang req"
  shows "fst (analyze apiKey parse generate disk req) =
           reply 200
             (AnalysisBody True True
                (Some (str ''GEMINI_API_KEY not configured. Returning demo analysis.''))
                (getDemoData (str_or (req_lang req) (str ''en''))))
         \<and> fst (analyze apiKey parse' generate' disk' req')
             = fst (analyze apiKey parse generate disk req)"
proof -
  have first: "analyze apiKey parse generate disk req =
      (reply 200
         (AnalysisBody True True
            (Some (str ''GEMINI_API_KEY not configured. Returning demo analysis.''))
            (getDemoData (str_or (req_lang req) (str ''en'')))),
       disk)"
    by (rule analyze_demo [OF assms(1,2,3)])
  have second: "analyze apiKey parse' generate' disk' req' =
      (reply 200
         (AnalysisBody True True
            (Some (str ''GEMINI_API_KEY not configured. Returning demo analysis.''))
            (getDemoData (str_or (req_lang req') (str ''en'')))),
       disk')"
    by (rule analyze_demo [OF assms(1,4,5)])
  show ?thesis
    by (simp add: first second assms(6))
qed

theorem analyze_demo_mode_fixed_record_witness:
  "fst (analyze None parse_example (answering fenced_reply) png_disk png_req) =
     reply 200
       (AnalysisBody True True
          (Some (str ''GEMINI_API_KEY not configured. Returning demo analysis.''))
          (getDemoData (str ''en'')))
   \<and> fst (analyze None parse_example (answering broken_reply) {} pdf_req)
       = fst (analyze None parse_example (answering fenced_reply) png_disk png_req)"
proof -
  have n: "\<not> str_truthy None" by (simp add: str_truthy_def)
  have l: "str_or (req_lang png_req) (str ''en'') = str ''en''"
    by (simp add: png_req_def str_or_def)
  from analyze_demo_mode_fixed_record
    [OF n, of png_req "[png_file]" pdf_req "[pdf_file, png_file]" parse_example
       "answering fenced_reply" png_disk parse_example "answering broken_reply" "{}"]
  show ?thesis by (simp add: l) (simp add: png_req_def pdf_req_def)
qed

text \<open>
  C3. The endpoint deletes the uploaded files only on the path that answers with a live
  result. For a request with one uploaded image, the file is still in the upload
  directory after the demo answer, after the answer to a reply that does not parse and
  after a failed call of the model; it is gone after a live result.
\<close>

theorem analyze_leaves_uploads_behind:
  "path png_file \<in> png_disk
   \<and> analyze None parse_example (answering fenced_reply) png_disk png_req =
       (reply 200
          (AnalysisBody True True
             (Some (str ''GEMINI_API_KEY not configured. Returning demo analysis.''))
             (getDemoData (str ''en''))),
        png_disk)
   \<and> analyze api_key parse_example (answering broken_reply) png_disk png_req =
       (reply 500 (ParseErrorBody (str ''Failed to parse AI response'') broken_reply),
        png_disk)
   \<and> analyze api_key parse_example (failing (str ''fetch failed'')) png_disk png_req =
       (reply 500 (ErrorBody (str ''fetch failed'')), png_disk)
   \<and> analyze api_key parse_example (answering fenced_reply) png_disk png_req =
       (reply 200 (AnalysisBody True False None (JObj [])), {})"
proof -
  have n: "\<not> str_truthy None" by (simp add: str_truthy_def)
  have m: "analyze api_key parse_example (failing (str ''fetch failed'')) png_disk png_req =
       (reply 500 (ErrorBody (str ''fetch failed'')), png_disk)"
    by (simp add: analyze_def getGeminiClient_def api_key_def str_truthy_def png_req_def
          png_disk_def png_file_def startsWith_def failing_def str_or_def Let_def str_def)
  have d: "analyze None parse_example (answering fenced_reply) png_disk png_req =
       (reply 200
          (AnalysisBody True True
             (Some (str ''GEMINI_API_KEY not configured. Returning demo analysis.''))
             (getDemoData (str ''en''))),
        png_disk)"
    using analyze_demo [OF n, of png_req "[png_file]"]
    by (simp add: png_req_def str_or_def)
  have b: "parse_example (cleaned broken_reply) = None"
    by (subst cleaned_broken_reply) (simp add: parse_example_def broken_reply_def str_def)
  have t: "substring broken_reply 0 800 = broken_reply"
    by (simp add: substring_prefix) (simp add: broken_reply_def str_def)
  have e: "analyze api_key parse_example (answering broken_reply) png_disk png_req =
       (reply 500 (ParseErrorBody (str ''Failed to parse AI response'') broken_reply),
        png_disk)"
    by (simp add: analyze_png parseGeminiJSON_no_object [of parse_example broken_reply, OF b] braces_broken_reply t)
  have f: "parse_example (cleaned fenced_reply) = Some (JObj [])"
    by (simp add: cleaned_fenced_reply parse_example_def)
  have s: "analyze api_key parse_example (answering fenced_reply) png_disk png_req =
       (reply 200 (AnalysisBody True False None (JObj [])), {})"
    by (simp add: analyze_png parseGeminiJSON_strict [of parse_example fenced_reply, OF f])
  have "path png_file \<in> png_disk" by (simp add: png_disk_def)
  then show ?thesis using d e m s by simp
qed

section \<open>The score of a saved report\<close>

lemma score_of_low:
  "get_prop rd (str ''overallRiskLevel'') = Some (JStr (str ''low'')) \<Longrightarrow> score_of rd = 1"
  by (simp add: score_of_def riskLevel_of_def or_else_def str_def)

lemma score_of_medium:
  "get_prop rd (str ''overallRiskLevel'') = Some (JStr (str ''medium'')) \<Longrightarrow> score_of rd = 2"
  by (simp add: score_of_def riskLevel_of_def or_else_def str_def)

lemma score_of_high:
  "get_prop rd (str ''overallRiskLevel'') = Some (JStr (str ''high'')) \<Longrightarrow> score_of rd = 3"
  by (simp add: score_of_def riskLevel_of_def or_else_def str_def)

lemma score_of_absent:
  "get_prop rd (str ''overallRiskLevel'') = None \<Longrightarrow> score_of rd = 2"
  by (simp add: score_of_def riskLevel_of_def or_else_def str_def)

lemma score_of_other:
  "get_prop rd (str ''overallRiskLevel'') = Some v \<Longrightarrow> v \<noteq> JStr (str ''low'')
   \<Longrightarrow> v \<noteq> JStr (str ''high'') \<Longrightarrow> score_of rd = 2"
  by (simp add: score_of_def riskLevel_of_def or_else_def str_def)

text \<open>
  What a request to save does to the table: a response of status 200 comes with exactly
  one new row, which holds the record and its score; any other response leaves the store
  as it was.
\<close>

lemma save_report_cases:
  assumes "save_report now d userId b = (resp, d')"
  shows "(status resp = 200 \<longrightarrow>
            (\<exists>uid rd row. userId = Some uid \<and> uid \<noteq> 0 \<and> sb_reportData b = Some rd \<and> truthy rd
               \<and> reports d' = reports d @ [row]
               \<and> r_user_id row = uid \<and> r_data row = rd \<and> r_score row = score_of rd
               \<and> r_report_id row = make_report_id now
               \<and> body resp = SavedBody \<lparr>sv_id = r_id row, sv_report_id = r_report_id row,
                                      sv_title = r_title row, sv_score = score_of rd,
                                      sv_created_at = r_created_at row\<rparr>))
       \<and> (status resp \<noteq> 200 \<longrightarrow> d' = d)"
  using assms
  by (auto simp add: save_report_def authenticated_def not_authenticated_def reply_def
        insert_report_def Let_def split: if_splits option.splits prod.splits)

lemma make_report_id_1000: "make_report_id 1000 = str ''GTM-RS''"
  by (simp add: make_report_id_def toString36.simps [of 1000] toString36.simps [of 27]
        toUpperCase36_def digit36_def str_def)

lemma save_report_example:
  "truthy rd \<Longrightarrow>
   save_report 1000 example_db (Some 1) (save_of rd) =
     (reply 200 (SavedBody \<lparr>sv_id = 2, sv_report_id = str ''GTM-RS'',
        sv_title = str ''Product Compliance Structural Assessment Report'',
        sv_score = score_of rd, sv_created_at = 4\<rparr>),
      example_db\<lparr>reports := [bobs_report,
         \<lparr>r_id = 2, r_user_id = 1, r_report_id = str ''GTM-RS'',
          r_title = str ''Product Compliance Structural Assessment Report'',
          r_data = rd, r_lang = str ''en'', r_score = score_of rd, r_created_at = 4\<rparr>],
        next_report_id := 3\<rparr>)"
  by (simp add: save_report_def authenticated_def save_of_def insert_report_def
        make_report_id_1000 example_db_def alice_def bob_def bobs_report_def str_or_def Let_def)
    (simp add: str_def)

text \<open>
  C7. Saving a report stores the score 1 for the overall risk level \<^verbatim>\<open>low\<close>, 2 for
  \<^verbatim>\<open>medium\<close> and 3 for \<^verbatim>\<open>high\<close>: whenever the request is answered with status 200,
  the row that it added holds the record and that score, and a request answered
  otherwise stores nothing.
\<close>

theorem save_report_score_of_risk_level:
  assumes "save_report now d userId b = (resp, d')"
    and "sb_reportData b = Some reportData"
    and "get_prop reportData (str ''overallRiskLevel'') = Some (JStr level)"
  shows "(status resp = 200 \<longrightarrow>
            (\<exists>row. reports d' = reports d @ [row] \<and> r_data row = reportData
               \<and> (level = str ''low'' \<longrightarrow> r_score row = 1)
               \<and> (level = str ''medium'' \<longrightarrow> r_score row = 2)
               \<and> (level = str ''high'' \<longrightarrow> r_score row = 3)))
         \<and> (status resp \<noteq> 200 \<longrightarrow> d' = d)"
proof -
  note c = save_report_cases [OF assms(1)]
  have "level = str ''low'' \<Longrightarrow> score_of reportData = 1"
    using assms(3) by (simp add: score_of_low)
  moreover have "level = str ''medium'' \<Longrightarrow> score_of reportData = 2"
    using assms(3) by (simp add: score_of_medium)
  moreover have "level = str ''high'' \<Longrightarrow> score_of reportData = 3"
    using assms(3) by (simp add: score_of_high)
  ultimately show ?thesis
    using c assms(2) by auto
qed

theorem save_report_score_of_risk_level_witness:
  "status (fst (save_report 1000 example_db (Some 1)
      (save_of (record_with_level (JStr (str ''low'')))))) = 200
   \<and> (\<exists>row. reports (snd (save_report 1000 example_db (Some 1)
                (save_of (record_with_level (JStr (str ''low''))))))
             = reports example_db @ [row] \<and> r_score row = 1)
   \<and> (\<exists>row. reports (snd (save_report 1000 example_db (Some 1)
                (save_of (record_with_level (JStr (str ''medium''))))))
             = reports example_db @ [row] \<and> r_score row = 2)
   \<and> (\<exists>row. reports (snd (save_report 1000 example_db (Some 1)
                (save_of (record_with_level (JStr (str ''high''))))))
             = reports example_db @ [row] \<and> r_score row = 3)"
proof -
  have ok: "status (fst (save_report 1000 example_db (Some 1)
                (save_of (record_with_level v)))) = 200"
    if "truthy v" for v
    by (subst save_report_example) (simp_all add: record_with_level_def reply_def)
  have sb: "sb_reportData (save_of (record_with_level v)) = Some (record_with_level v)" for v
    by (simp add: save_of_def)
  have gp: "get_prop (record_with_level v) (str ''overallRiskLevel'') = Some v" for v
    by (simp add: record_with_level_def)
  have t: "str ''low'' \<noteq> []" "str ''medium'' \<noteq> []" "str ''high'' \<noteq> []"
    by (simp_all add: str_def)
  show ?thesis
    using
      save_report_score_of_risk_level
        [OF surjective_pairing sb gp, of 1000 example_db "Some 1" "str ''low''"]
      save_report_score_of_risk_level
        [OF surjective_pairing sb gp, of 1000 example_db "Some 1" "str ''medium''"]
      save_report_score_of_risk_level
        [OF surjective_pairing sb gp, of 1000 example_db "Some 1" "str ''high''"]
      ok [of "JStr (str ''low'')"] ok [of "JStr (str ''medium'')"]
      ok [of "JStr (str ''high'')"] t
    by auto
qed

text \<open>
  Which requests to save are accepted: the caller is logged in, the record is truthy, the
  store takes the statement, the caller's row exists and the report id is free. Nothing
  else of the record is read for it.
\<close>

lemma save_report_accepted_iff:
  assumes "sb_reportData b = Some reportData"
  shows "(status (fst (save_report now d userId b)) = 200) =
           (\<exists>uid. userId = Some uid \<and> uid \<noteq> 0 \<and> truthy reportData \<and> db_ok d
                  \<and> uid \<in> set (map u_id (users d))
                  \<and> make_report_id now \<notin> set (map r_report_id (reports d)))"
  using assms
  by (auto simp add: save_report_def authenticated_def not_authenticated_def reply_def
        insert_report_def Let_def split: option.splits)

text \<open>
  C10. A record without \<^verbatim>\<open>overallRiskLevel\<close>, or with any value there other than the
  strings \<^verbatim>\<open>low\<close> and \<^verbatim>\<open>high\<close>, gets the score 2 and is not refused for it: the
  request is answered with status 200 exactly when the caller is logged in, the record is
  truthy, the store takes the statement, the caller's row exists and the report id is
  free, as for any other record. Whenever it is answered with status 200 the row that it
  added holds the record and the score 2, and a request answered otherwise stores
  nothing.
\<close>

theorem save_report_default_score:
  assumes "save_report now d userId b = (resp, d')"
    and "sb_reportData b = Some reportData"
    and "get_prop reportData (str ''overallRiskLevel'') = None
         \<or> (\<exists>v. get_prop reportData (str ''overallRiskLevel'') = Some v
                \<and> v \<noteq> JStr (str ''low'') \<and> v \<noteq> JStr (str ''high''))"
  shows "score_of reportData = 2
         \<and> (status resp = 200 \<longrightarrow>
              (\<exists>row. reports d' = reports d @ [row] \<and> r_data row = reportData
                 \<and> r_score row = 2))
         \<and> (status resp \<noteq> 200 \<longrightarrow> d' = d)
         \<and> (userId = Some uid \<and> uid \<noteq> 0 \<and> truthy reportData \<and> db_ok d
              \<and> uid \<in> set (map u_id (users d))
              \<and> make_report_id now \<notin> set (map r_report_id (reports d)) \<longrightarrow>
             status resp = 200)
         \<and> ((status resp = 200) =
              (\<exists>u. userId = Some u \<and> u \<noteq> 0 \<and> truthy reportData \<and> db_ok d
                   \<and> u \<in> set (map u_id (users d))
                   \<and> make_report_id now \<notin> set (map r_report_id (reports d))))"
proof -
  have s: "score_of reportData = 2"
    using assms(3) by (auto simp add: score_of_absent score_of_other)
  have stored: "(status resp = 200 \<longrightarrow>
              (\<exists>row. reports d' = reports d @ [row] \<and> r_data row = reportData
                 \<and> r_score row = 2))
         \<and> (status resp \<noteq> 200 \<longrightarrow> d' = d)"
    using save_report_cases [OF assms(1)] assms(2) s by auto
  have r: "resp = fst (save_report now d userId b)"
    by (simp add: assms(1))
  have accepted: "(status resp = 200) =
              (\<exists>u. userId = Some u \<and> u \<noteq> 0 \<and> truthy reportData \<and> db_ok d
                   \<and> u \<in> set (map u_id (users d))
                   \<and> make_report_id now \<notin> set (map r_report_id (reports d)))"
    unfolding r by (rule save_report_accepted_iff [OF assms(2)])
  have "userId = Some uid \<and> uid \<noteq> 0 \<and> truthy reportData \<and> db_ok d
              \<and> uid \<in> set (map u_id (users d))
              \<and> make_report_id now \<notin> set (map r_report_id (reports d)) \<longrightarrow>
             status resp = 200"
    using accepted by blast
  then show ?thesis
    using s stored accepted by blast
qed

theorem save_report_default_score_witness:
  "status (fst (save_report 1000 example_db (Some 1) (save_of (JObj [])))) = 200
   \<and> (\<exists>row. reports (snd (save_report 1000 example_db (Some 1) (save_of (JObj []))))
             = reports example_db @ [row] \<and> r_score row = 2)
   \<and> status (fst (save_report 1000 example_db (Some 1)
        (save_of (record_with_level (JStr (str ''severe'')))))) = 200
   \<and> (\<exists>row. reports (snd (save_report 1000 example_db (Some 1)
                (save_of (record_with_level (JStr (str ''severe''))))))
             = reports example_db @ [row] \<and> r_score row = 2)
   \<and> status (fst (save_report 1000 example_db (Some 1)
        (save_of (record_with_level JNull)))) = 200
   \<and> (\<exists>row. reports (snd (save_report 1000 example_db (Some 1)
                (save_of (record_with_level JNull))))
             = reports example_db @ [row] \<and> r_score row = 2)"
proof -
  have sb: "sb_reportData (save_of v) = Some v" for v
    by (simp add: save_of_def)
  have h1: "get_prop (JObj []) (str ''overallRiskLevel'') = None
         \<or> (\<exists>v. get_prop (JObj []) (str ''overallRiskLevel'') = Some v
                \<and> v \<noteq> JStr (str ''low'') \<and> v \<noteq> JStr (str ''high''))"
    by simp
  have h2: "get_prop (record_with_level (JStr (str ''severe''))) (str ''overallRiskLevel'')
              = None
         \<or> (\<exists>v. get_prop (record_with_level (JStr (str ''severe'')))
                    (str ''overallRiskLevel'') = Some v
                \<and> v \<noteq> JStr (str ''low'') \<and> v \<noteq> JStr (str ''high''))"
    by (simp add: record_with_level_def str_def)
  have h3: "get_prop (record_with_level JNull) (str ''overallRiskLevel'') = None
         \<or> (\<exists>v. get_prop (record_with_level JNull) (str ''overallRiskLevel'') = Some v
                \<and> v \<noteq> JStr (str ''low'') \<and> v \<noteq> JStr (str ''high''))"
    by (simp add: record_with_level_def)
  have fresh: "make_report_id 1000 \<notin> set (map r_report_id (reports example_db))"
    by (simp add: make_report_id_1000 example_db_def bobs_report_def str_def)
  have acc: "Some (1::nat) = Some 1 \<and> (1::nat) \<noteq> 0 \<and> truthy v \<and> db_ok example_db
              \<and> 1 \<in> set (map u_id (users example_db))
              \<and> make_report_id 1000 \<notin> set (map r_report_id (reports example_db))"
    if "truthy v" for v
    using that fresh by (simp add: example_db_def alice_def bob_def)
  have t: "truthy (JObj [])" "truthy (record_with_level (JStr (str ''severe'')))"
    "truthy (record_with_level JNull)"
    by (simp_all add: record_with_level_def)
  note w1 = save_report_default_score
      [where now = 1000 and d = example_db and userId = "Some 1" and uid = 1,
       OF surjective_pairing sb h1]
  note w2 = save_report_default_score
      [where now = 1000 and d = example_db and userId = "Some 1" and uid = 1,
       OF surjective_pairing sb h2]
  note w3 = save_report_default_score
      [where now = 1000 and d = example_db and userId = "Some 1" and uid = 1,
       OF surjective_pairing sb h3]
  have a1: "status (fst (save_report 1000 example_db (Some 1) (save_of (JObj [])))) = 200"
    using w1 acc [OF t(1)] by blast
  have a2: "status (fst (save_report 1000 example_db (Some 1)
              (save_of (record_with_level (JStr (str ''severe'')))))) = 200"
    using w2 acc [OF t(2)] by blast
  have a3: "status (fst (save_report 1000 example_db (Some 1)
              (save_of (record_with_level JNull)))) = 200"
    using w3 acc [OF t(3)] by blast
  have s1: "\<exists>row. reports (snd (save_report 1000 example_db (Some 1) (save_of (JObj []))))
             = reports example_db @ [row] \<and> r_score row = 2"
    using w1 a1 by blast
  have s2: "\<exists>row. reports (snd (save_report 1000 example_db (Some 1)
                (save_of (record_with_level (JStr (str ''severe''))))))
             = reports example_db @ [row] \<and> r_score row = 2"
    using w2 a2 by blast
  have s3: "\<exists>row. reports (snd (save_report 1000 example_db (Some 1)
                (save_of (record_with_level JNull))))
             = reports example_db @ [row] \<and> r_score row = 2"
    using w3 a3 by blast
  show ?thesis
    using a1 s1 a2 s2 a3 s3 by (intro conjI)
qed

section \<open>Reports are scoped to their owner\<close>

text \<open>
  A report id belongs to one row (\<^verbatim>\<open>UNIQUE\<close>), so a statement with
  \<^verbatim>\<open>WHERE report_id=$1 AND user_id=$2\<close> selects nothing when the row of that id
  belongs to another user.
\<close>

lemma filter_owner_empty:
  assumes "distinct (map r_report_id rows)" and "r \<in> set rows" and "r_user_id r \<noteq> a"
  shows "filter (\<lambda>x. r_report_id x = r_report_id r \<and> Some (r_user_id x) = Some a) rows = []"
proof -
  have "x = r" if "x \<in> set rows" and "r_report_id x = r_report_id r" for x
    using that assms(1,2) by (meson distinct_map inj_onD)
  then show ?thesis using assms(3) by (auto simp add: filter_empty_conv)
qed

lemma filter_keep_all:
  assumes "distinct (map r_report_id rows)" and "r \<in> set rows" and "r_user_id r \<noteq> a"
  shows "filter (\<lambda>x. \<not> (r_report_id x = r_report_id r \<and> Some (r_user_id x) = Some a)) rows
         = rows"
proof -
  have "x = r" if "x \<in> set rows" and "r_report_id x = r_report_id r" for x
    using that assms(1,2) by (meson distinct_map inj_onD)
  then show ?thesis using assms(3) by (auto simp add: filter_id_conv)
qed

lemma listed_rows_owned:
  "set (take 50 (rev (sort_key r_created_at (filter (\<lambda>r. Some (r_user_id r) = Some a) rows))))
   \<subseteq> {r \<in> set rows. r_user_id r = a}"
  by (auto dest!: in_set_takeD)

text \<open>
  The constraints hold in the empty table and are kept by every request that changes the
  table.
\<close>

lemma db_inv_empty:
  "db_inv \<lparr>users = us, reports = [], next_user_id = n, next_report_id = m, db_now = t,
           db_ok = ok\<rparr>"
  by (simp add: db_inv_def)

lemma db_inv_insert_report:
  assumes "db_inv d" and "insert_report d uid rid title dat lang score = Some (row, d')"
  shows "db_inv d'"
proof -
  from assms(2) have fresh: "rid \<notin> set (map r_report_id (reports d))"
    and row: "r_id row = next_report_id d" "r_report_id row = rid"
    and d': "reports d' = reports d @ [row]" "next_report_id d' = Suc (next_report_id d)"
    by (auto simp add: insert_report_def Let_def split: if_splits)
  from assms(1) have dr: "distinct (map r_report_id (reports d))"
    and di: "distinct (map r_id (reports d))"
    and lt: "\<forall>r \<in> set (reports d). r_id r < next_report_id d"
    by (simp_all add: db_inv_def list_all_iff)
  have "r_id row \<notin> set (map r_id (reports d))"
    using lt row(1) by auto
  then show ?thesis
    using fresh row dr di lt by (auto simp add: db_inv_def d' list_all_iff less_Suc_eq)
qed

lemma db_inv_save_report:
  assumes "db_inv d" and "save_report now d userId b = (resp, d')"
  shows "db_inv d'"
proof (cases "d' = d")
  case True
  then show ?thesis using assms(1) by simp
next
  case False
  then obtain uid rid title dat lang score row
    where "insert_report d uid rid title dat lang score = Some (row, d')"
    using assms(2)
    by (auto simp add: save_report_def Let_def split: if_splits option.splits prod.splits)
  then show ?thesis by (rule db_inv_insert_report [OF assms(1)])
qed

lemma db_inv_delete_report:
  assumes "db_inv d" and "delete_report d userId reportId = (resp, d')"
  shows "db_inv d'"
  using assms
  by (auto simp add: delete_report_def db_inv_def list_all_iff distinct_map_filter
      split: if_splits)

lemma db_inv_example: "db_inv example_db"
  by (simp add: db_inv_def example_db_def bobs_report_def)

text \<open>
  C4, as stated, fails for \<^verbatim>\<open>DELETE\<close>: the first user deletes by id the report of the
  second user; the answer is 200 with \<^verbatim>\<open>success: true\<close>, not 404, and the table is
  unchanged.
\<close>

theorem delete_other_owner_counterexample:
  "bobs_report \<in> set (reports example_db)
   \<and> r_user_id bobs_report = 2
   \<and> authenticated (Some 1)
   \<and> delete_report example_db (Some 1) (r_report_id bobs_report)
       = (reply 200 SuccessBody, example_db)"
  by (simp add: delete_report_def authenticated_def example_db_def bobs_report_def)

text \<open>
  C4, amended. Let user \<open>a\<close> be logged in and let \<open>r\<close> be a stored report of
  another user. A \<^verbatim>\<open>GET\<close> of \<open>r\<close> by \<open>a\<close> is answered 404, the answer for an id that
  does not exist. A \<^verbatim>\<open>DELETE\<close> of \<open>r\<close> by \<open>a\<close> leaves the store as it is and is
  answered 200 with \<^verbatim>\<open>success: true\<close>, the answer to every authenticated
  \<^verbatim>\<open>DELETE\<close>. The list of \<open>a\<close> consists of rows of \<open>a\<close> and does not contain \<open>r\<close>.
\<close>

theorem reports_scoped_to_owner:
  assumes "a \<noteq> 0" and "db_ok d" and "db_inv d"
    and "r \<in> set (reports d)" and "r_user_id r \<noteq> a"
  shows "get_report d (Some a) (r_report_id r) = reply 404 (ErrorBody (str ''Report not found''))
         \<and> (reportId \<notin> set (map r_report_id (reports d)) \<longrightarrow>
              get_report d (Some a) reportId = reply 404 (ErrorBody (str ''Report not found'')))
         \<and> delete_report d (Some a) (r_report_id r) = (reply 200 SuccessBody, d)
         \<and> fst (delete_report d (Some a) reportId) = reply 200 SuccessBody
         \<and> (\<exists>vs. list_reports d (Some a) = reply 200 (ReportsBody vs)
               \<and> r_id r \<notin> set (map lv_id vs)
               \<and> (\<forall>v \<in> set vs. \<exists>r' \<in> set (reports d). r_user_id r' = a \<and> v = listed r'))"
proof (intro conjI impI)
  have au: "authenticated (Some a)" using assms(1) by (simp add: authenticated_def)
  have dr: "distinct (map r_report_id (reports d))" and di: "distinct (map r_id (reports d))"
    using assms(3) by (simp_all add: db_inv_def)
  show "get_report d (Some a) (r_report_id r) = reply 404 (ErrorBody (str ''Report not found''))"
    using au assms(2) filter_owner_empty [OF dr assms(4,5)]
    by (simp add: get_report_def)
  show "delete_report d (Some a) (r_report_id r) = (reply 200 SuccessBody, d)"
    using au assms(2) filter_keep_all [OF dr assms(4,5)]
    by (simp add: delete_report_def)
  show "fst (delete_report d (Some a) reportId) = reply 200 SuccessBody"
    using au assms(2) by (simp add: delete_report_def)
  let ?rows = "take 50 (rev (sort_key r_created_at
                 (filter (\<lambda>r. Some (r_user_id r) = Some a) (reports d))))"
  have l: "list_reports d (Some a) = reply 200 (ReportsBody (map listed ?rows))"
    using au assms(2) by (simp add: list_reports_def)
  have own: "set ?rows \<subseteq> {r \<in> set (reports d). r_user_id r = a}"
    by (rule listed_rows_owned)
  have "r_id r \<notin> set (map lv_id (map listed ?rows))"
  proof
    assume "r_id r \<in> set (map lv_id (map listed ?rows))"
    then obtain x where x: "x \<in> set ?rows" and e: "r_id x = r_id r"
      by (auto simp add: listed_def)
    then have "x \<in> set (reports d)" and o: "r_user_id x = a" using own by auto
    then have "x = r" using e di assms(4) by (meson distinct_map inj_onD)
    then show False using o assms(5) by simp
  qed
  moreover have "\<forall>v \<in> set (map listed ?rows).
                   \<exists>r' \<in> set (reports d). r_user_id r' = a \<and> v = listed r'"
    using own by auto
  ultimately show "\<exists>vs. list_reports d (Some a) = reply 200 (ReportsBody vs)
               \<and> r_id r \<notin> set (map lv_id vs)
               \<and> (\<forall>v \<in> set vs. \<exists>r' \<in> set (reports d). r_user_id r' = a \<and> v = listed r')"
    using l by blast
next
  assume n: "reportId \<notin> set (map r_report_id (reports d))"
  have au: "authenticated (Some a)" using assms(1) by (simp add: authenticated_def)
  have "filter (\<lambda>x. r_report_id x = reportId \<and> Some (r_user_id x) = Some a) (reports d) = []"
    using n by (auto simp add: filter_empty_conv)
  then show "get_report d (Some a) reportId = reply 404 (ErrorBody (str ''Report not found''))"
    using au assms(2) by (simp add: get_report_def)
qed

theorem reports_scoped_to_owner_witness:
  "get_report example_db (Some 1) (str ''GTM-B1'')
     = reply 404 (ErrorBody (str ''Report not found''))
   \<and> get_report example_db (Some 2) (str ''GTM-B1'') = reply 200 (ReportBody (viewed bobs_report))
   \<and> delete_report example_db (Some 1) (str ''GTM-B1'') = (reply 200 SuccessBody, example_db)
   \<and> list_reports example_db (Some 1) = reply 200 (ReportsBody [])
   \<and> list_reports example_db (Some 2) = reply 200 (ReportsBody [listed bobs_report])"
proof -
  have h: "(1::nat) \<noteq> 0" "db_ok example_db" "bobs_report \<in> set (reports example_db)"
    "r_user_id bobs_report \<noteq> 1"
    by (simp_all add: example_db_def bobs_report_def)
  have i: "r_report_id bobs_report = str ''GTM-B1''" by (simp add: bobs_report_def)
  note t = reports_scoped_to_owner [OF h(1,2) db_inv_example h(3,4), of "str ''GTM-B1''"]
  have g: "get_report example_db (Some 2) (str ''GTM-B1'')
           = reply 200 (ReportBody (viewed bobs_report))"
    by (simp add: get_report_def authenticated_def example_db_def bobs_report_def)
  have l1: "list_reports example_db (Some 1) = reply 200 (ReportsBody [])"
    by (simp add: list_reports_def authenticated_def example_db_def bobs_report_def)
  have l2: "list_reports example_db (Some 2) = reply 200 (ReportsBody [listed bobs_report])"
    by (simp add: list_reports_def authenticated_def example_db_def bobs_report_def)
  from t [THEN conjunct1] t [THEN conjunct2, THEN conjunct2, THEN conjunct1] g l1 l2
  show ?thesis by (simp add: i)
qed

section \<open>Registration with a short password\<close>

text \<open>
  C9, as stated, fails for the empty password: it is shorter than 6 characters, and the
  answer is 400 with the message about required fields, not the message about the length
  of the password.
\<close>

theorem register_empty_password_counterexample:
  "rb_password (carol []) = Some []
   \<and> length ([] :: jsstring) < 6
   \<and> register toLowerCase_ascii example_hash example_db None (carol [])
       = (reply 400 (ErrorBody (str ''Email, password, and name are required'')),
          example_db, None)
   \<and> str ''Email, password, and name are required''
       \<noteq> str ''Password must be at least 6 characters''"
  by (simp add: register_def carol_def str_truthy_def) (simp add: str_def)

text \<open>
  C9, amended. A registration whose password is a string of fewer than 6 code units is
  answered 400 and changes neither the store nor the session. The message is the one
  about the length of the password when email, password and name are all present and
  not empty, and the one about required fields otherwise.
\<close>

theorem register_short_password_rejected:
  assumes "rb_password b = Some password" and "length password < 6"
  shows "register toLowerCase hash d userId b =
           (reply 400
              (ErrorBody
                 (if str_truthy (rb_email b) \<and> password \<noteq> [] \<and> str_truthy (rb_name b)
                  then str ''Password must be at least 6 characters''
                  else str ''Email, password, and name are required'')),
            d, userId)"
  using assms
  by (auto simp add: register_def str_truthy_def split: option.splits)

theorem register_short_password_rejected_witness:
  "rb_password (carol (str ''abcd'')) = Some (str ''abcd'')
   \<and> length (str ''abcd'') = 4
   \<and> register toLowerCase_ascii example_hash example_db None (carol (str ''abcd''))
       = (reply 400 (ErrorBody (str ''Password must be at least 6 characters'')),
          example_db, None)"
proof -
  have p: "rb_password (carol (str ''abcd'')) = Some (str ''abcd'')"
    by (simp add: carol_def)
  have l: "length (str ''abcd'') < 6" by (simp add: str_def)
  have t: "str_truthy (rb_email (carol (str ''abcd''))) \<and> str ''abcd'' \<noteq> []
           \<and> str_truthy (rb_name (carol (str ''abcd'')))"
    by (simp add: carol_def str_truthy_def str_def)
  from register_short_password_rejected [OF p l, of toLowerCase_ascii example_hash example_db None]
  show ?thesis using t p by (simp add: str_def)
qed

text \<open>
  For comparison, the same registration with a password of 6 characters creates the user
  and starts the session.
\<close>

lemma register_example:
  "register toLowerCase_ascii example_hash example_db None (carol (str ''abcdef''))
     = (reply 200 (UserBody \<lparr>uv_id = 3, uv_email = str ''carol@example.com'',
                              uv_name = str ''Carol'', uv_company = []\<rparr>),
        example_db\<lparr>users := [alice, bob,
            \<lparr>u_id = 3, u_email = str ''carol@example.com'',
             u_password_hash = str ''hash of abcdef'', u_name = str ''Carol'',
             u_company = [], u_created_at = 4\<rparr>],
          next_user_id := 4\<rparr>,
        Some 3)"
  by (simp add: register_def carol_def str_truthy_def insert_user_def example_db_def
        alice_def bob_def toLowerCase_ascii_def example_hash_def trim_def is_ws_def
        str_or_def str_def Let_def)

end
